theory Spec2Isabelle
  imports Main "HOL-Library.Char_ord" "HOL-Library.List_Lexorder"
begin

section \<open>OrderTogether: data model\<close>

text \<open>
  The persistent records of \<^verbatim>\<open>app/models.py\<close>. Instants are naive UTC datetimes,
  counted in microseconds since 1970-01-01T00:00:00; the timestamps \<^verbatim>\<open>created_at\<close>
  and \<^verbatim>\<open>added_at\<close> are filled by a column default and read by no handler, they are
  left out. A Python \<^verbatim>\<open>Optional[str]\<close> column is a \<open>string option\<close>.
\<close>

type_synonym datetime = int

record Order =
  o_id :: string
  admin_token :: string
  vendor_name :: string
  vendor_url :: string
  deadline :: datetime
  creator_name :: string
  creator_identifier :: "string option"
  invite_only :: bool
  allow_oidc :: bool
  privacy_mode :: bool

record OrderItem =
  i_id :: string
  order_id :: string
  person_identifier :: string
  person_name :: string
  product_name :: string
  product_sku :: "string option"
  product_url :: "string option"
  quantity :: string
  i_note :: "string option"

record EmailToken =
  token :: string
  t_order_id :: string
  display_name :: string

text \<open>
  The database: three tables, rows in insertion order.
\<close>

record database =
  orders :: "Order list"
  order_items :: "OrderItem list"
  email_tokens :: "EmailToken list"

text \<open>
  The Starlette session is a dictionary; the application writes four keys only, so it is
  a record of optional entries (\<open>None\<close>: the key is absent).
\<close>

record session =
  identity_type :: "string option"
  identity_id :: "string option"
  identity_name :: "string option"
  admin_orders :: "string list option"

definition empty_session :: session where
  "empty_session = \<lparr>identity_type = None, identity_id = None, identity_name = None,
     admin_orders = None\<rparr>"

text \<open>
  The identity dictionary \<^verbatim>\<open>{"type": .., "id": .., "name": ..}\<close> that
  \<^verbatim>\<open>get_identity\<close> returns.
\<close>

record identity =
  ident_type :: string
  ident_id :: string
  ident_name :: string

text \<open>
  Exceptions. \<open>HTTPException status detail\<close> is FastAPI's; the others are the Python
  and SQLAlchemy exceptions a handler lets escape.
\<close>

datatype error =
    HTTPException nat string
  | KeyError string
  | TypeError
  | OverflowError
  | IntegrityError
  | MultipleResultsFound

section \<open>Session and permission helpers (app/auth.py)\<close>

text \<open>
  \<^verbatim>\<open>get_identity\<close>: \<open>uuid\<close> is the value \<^verbatim>\<open>str(uuid.uuid4())\<close> would draw.
  Reading \<^verbatim>\<open>session["identity_type"]\<close> of a session that has an id and no type
  raises \<^verbatim>\<open>KeyError\<close>.
\<close>

definition get_identity :: "string \<Rightarrow> session \<Rightarrow> error + (identity \<times> session)" where
  "get_identity uuid s =
     (let s1 = (if identity_id s = None
                then s\<lparr>identity_type := Some ''anon'', identity_id := Some uuid,
                       identity_name := Some ''''\<rparr>
                else s)
      in case identity_type s1 of
           None \<Rightarrow> Inl (KeyError ''identity_type'')
         | Some ty \<Rightarrow>
             (case identity_id s1 of
                None \<Rightarrow> Inl (KeyError ''identity_id'')
              | Some i \<Rightarrow>
                  Inr (\<lparr>ident_type = ty, ident_id = i,
                        ident_name = (case identity_name s1 of None \<Rightarrow> '''' | Some n \<Rightarrow> n)\<rparr>,
                       s1)))"

definition set_oidc_identity :: "session \<Rightarrow> string \<Rightarrow> string \<Rightarrow> session" where
  "set_oidc_identity s sub name =
     s\<lparr>identity_type := Some ''oidc'', identity_id := Some sub, identity_name := Some name\<rparr>"

definition set_token_identity :: "session \<Rightarrow> string \<Rightarrow> string \<Rightarrow> session" where
  "set_token_identity s tok dname =
     s\<lparr>identity_type := Some ''token'', identity_id := Some tok, identity_name := Some dname\<rparr>"

definition clear_identity :: "session \<Rightarrow> session" where
  "clear_identity s = empty_session"

definition set_order_admin :: "session \<Rightarrow> string \<Rightarrow> session" where
  "set_order_admin s oid =
     (let admin = (case admin_orders s of None \<Rightarrow> [] | Some l \<Rightarrow> l);
          admin' = (if oid \<notin> set admin then admin @ [oid] else admin)
      in s\<lparr>admin_orders := Some admin'\<rparr>)"

text \<open>
  \<^verbatim>\<open>is_order_admin\<close>. The middle conjunct \<^verbatim>\<open>order.creator_identifier\<close> is a
  truthiness test: \<^verbatim>\<open>None\<close> and the empty string both fail it.
\<close>

definition truthy :: "string option \<Rightarrow> bool" where
  "truthy v = (case v of None \<Rightarrow> False | Some x \<Rightarrow> x \<noteq> [])"

definition is_order_admin :: "session \<Rightarrow> Order \<Rightarrow> bool" where
  "is_order_admin s ord =
     (if o_id ord \<in> set (case admin_orders s of None \<Rightarrow> [] | Some l \<Rightarrow> l) then True
      else if identity_type s = Some ''oidc'' \<and> truthy (creator_identifier ord)
              \<and> identity_id s = creator_identifier ord then True
      else False)"

definition can_add_item :: "identity \<Rightarrow> Order \<Rightarrow> bool \<Rightarrow> bool" where
  "can_add_item ident ord is_admin =
     (if is_admin then True
      else if invite_only ord then
        (if ident_type ident = ''token'' then True
         else if ident_type ident = ''oidc'' \<and> allow_oidc ord then True
         else False)
      else True)"

text \<open>
  \<^verbatim>\<open>can_edit_item\<close>; \<open>oidc_enabled\<close> is the module constant
  \<^verbatim>\<open>OIDC_ENABLED\<close>, fixed by the environment at start-up.
\<close>

definition can_edit_item :: "bool \<Rightarrow> identity \<Rightarrow> OrderItem \<Rightarrow> Order \<Rightarrow> bool \<Rightarrow> bool" where
  "can_edit_item oidc_enabled ident item ord is_admin =
     (if is_admin then True
      else if ident_type ident = ''anon'' \<and> \<not> oidc_enabled \<and> \<not> invite_only ord then True
      else ident_id ident = person_identifier item)"

definition can_see_item :: "identity \<Rightarrow> OrderItem \<Rightarrow> Order \<Rightarrow> bool \<Rightarrow> bool" where
  "can_see_item ident item ord is_admin =
     (if \<not> privacy_mode ord then True
      else if is_admin then True
      else ident_id ident = person_identifier item)"

section \<open>Live update broadcaster (app/ws.py)\<close>

text \<open>
  A connection is named by a number. \<^verbatim>\<open>_subs\<close> maps an order id to its set of
  connections; the set is kept as a list without regard to order, which stands for the
  (arbitrary) order in which Python iterates the set. A missing key is the
  \<^verbatim>\<open>defaultdict\<close>'s empty set.
\<close>

type_synonym websocket = nat
type_synonym subscriptions = "string \<rightharpoonup> websocket list"

datatype json = JNull | JString string | JObject "(string \<times> json) list"

definition subscribers :: "subscriptions \<Rightarrow> string \<Rightarrow> websocket list" where
  "subscribers subs oid = (case subs oid of None \<Rightarrow> [] | Some xs \<Rightarrow> xs)"

definition subscribe :: "subscriptions \<Rightarrow> string \<Rightarrow> websocket \<Rightarrow> subscriptions" where
  "subscribe subs oid ws =
     (let xs = subscribers subs oid
      in subs(oid \<mapsto> (if ws \<in> set xs then xs else xs @ [ws])))"

definition unsubscribe :: "subscriptions \<Rightarrow> string \<Rightarrow> websocket \<Rightarrow> subscriptions" where
  "unsubscribe subs oid ws =
     (let xs = removeAll ws (subscribers subs oid)
      in if xs = [] then subs(oid := None) else subs(oid \<mapsto> xs))"

text \<open>
  The payload is the JSON object handed to \<^verbatim>\<open>json.dumps\<close>; the text frame is its
  serialisation. \<open>send_raises ws\<close> tells whether \<^verbatim>\<open>ws.send_text\<close> raises an
  \<^verbatim>\<open>Exception\<close> in this call. The first loop returns the connections collected in
  \<^verbatim>\<open>dead\<close> and the trace of the sends: connection, payload, and whether the send
  went through.
\<close>

definition update_payload :: "string option \<Rightarrow> json" where
  "update_payload dl =
     JObject [(''type'', JString ''update''),
              (''deadline'', (case dl of None \<Rightarrow> JNull | Some d \<Rightarrow> JString d))]"

fun send_loop :: "(websocket \<Rightarrow> bool) \<Rightarrow> json \<Rightarrow> websocket list \<Rightarrow> websocket list
    \<Rightarrow> (websocket \<times> json \<times> bool) list \<Rightarrow> websocket list \<times> (websocket \<times> json \<times> bool) list" where
  "send_loop send_raises payload [] dead trace = (dead, trace)"
| "send_loop send_raises payload (ws # rest) dead trace =
     (if send_raises ws
      then send_loop send_raises payload rest
             (if ws \<in> set dead then dead else dead @ [ws]) (trace @ [(ws, payload, False)])
      else send_loop send_raises payload rest dead (trace @ [(ws, payload, True)]))"

definition broadcast :: "(websocket \<Rightarrow> bool) \<Rightarrow> subscriptions \<Rightarrow> string \<Rightarrow> string option
    \<Rightarrow> subscriptions \<times> (websocket \<times> json \<times> bool) list" where
  "broadcast send_raises subs oid dl =
     (let payload = update_payload dl;
          (dead, trace) = send_loop send_raises payload (subscribers subs oid) [] []
      in (fold (\<lambda>ws m. unsubscribe m oid ws) dead subs, trace))"

section \<open>Deadlines and the configured time zone (app/config.py, app/main.py)\<close>

text \<open>
  \<^verbatim>\<open>LOCAL_TZ = ZoneInfo(TIMEZONE)\<close> is data of the deployment. A zone is the offset
  from UTC (in seconds) in force before its first transition, and its transitions in
  ascending order: the UTC second of each and the offset in force from then on. The two
  lookups are those of the standard library's \<^verbatim>\<open>zoneinfo\<close>: for a wall-clock time
  (\<^verbatim>\<open>fold = 0\<close>) a transition counts from its UTC second plus the larger of the
  offsets around it; for a UTC instant it counts from its UTC second.
\<close>

record ZoneInfo =
  utcoff_before :: int
  transitions :: "(int \<times> int) list"

fun find_trans :: "int \<Rightarrow> (int \<times> int) list \<Rightarrow> int \<Rightarrow> int" where
  "find_trans prev [] ts = prev"
| "find_trans prev ((t, off) # rest) ts =
     (if ts < t + max prev off then prev else find_trans off rest ts)"

fun find_trans_utc :: "int \<Rightarrow> (int \<times> int) list \<Rightarrow> int \<Rightarrow> int" where
  "find_trans_utc prev [] ts = prev"
| "find_trans_utc prev ((t, off) # rest) ts =
     (if ts < t then prev else find_trans_utc off rest ts)"

definition utcoffset :: "ZoneInfo \<Rightarrow> datetime \<Rightarrow> int" where
  "utcoffset z dt = find_trans (utcoff_before z) (transitions z) (dt div 1000000)"

definition fromutc_offset :: "ZoneInfo \<Rightarrow> datetime \<Rightarrow> int" where
  "fromutc_offset z dt = find_trans_utc (utcoff_before z) (transitions z) (dt div 1000000)"

text \<open>
  Python's datetimes range from 0001-01-01T00:00:00 to 9999-12-31T23:59:59.999999;
  arithmetic that leaves the range raises \<^verbatim>\<open>OverflowError\<close>.
\<close>

definition datetime_min :: datetime where
  "datetime_min = - 62135596800000000"

definition datetime_max :: datetime where
  "datetime_max = 253402300799999999"

definition checked :: "datetime \<Rightarrow> error + datetime" where
  "checked dt = (if datetime_min \<le> dt \<and> dt \<le> datetime_max then Inr dt else Inl OverflowError)"

text \<open>
  \<^verbatim>\<open>dt.replace(tzinfo=LOCAL_TZ).astimezone(timezone.utc).replace(tzinfo=None)\<close>
  of \<^verbatim>\<open>create_order\<close>, on the naive datetime that \<^verbatim>\<open>fromisoformat\<close> returned.
\<close>

definition local_to_utc :: "ZoneInfo \<Rightarrow> datetime \<Rightarrow> error + datetime" where
  "local_to_utc z dt = checked (dt - 1000000 * utcoffset z dt)"

text \<open>
  \<^verbatim>\<open>_localtime_filter\<close> of \<^verbatim>\<open>app/main.py\<close> on a stored naive UTC datetime,
  up to the \<^verbatim>\<open>strftime\<close> that prints it.
\<close>

definition localtime_filter :: "ZoneInfo \<Rightarrow> datetime \<Rightarrow> error + datetime" where
  "localtime_filter z dt = checked (dt + 1000000 * fromutc_offset z dt)"

text \<open>
  A wall-clock second that a forward transition skips: it lies between the transition's
  local time under the old offset and under the new, larger one.
\<close>

fun in_gap :: "int \<Rightarrow> (int \<times> int) list \<Rightarrow> int \<Rightarrow> bool" where
  "in_gap prev [] ts = False"
| "in_gap prev ((t, off) # rest) ts =
     ((prev < off \<and> t + prev \<le> ts \<and> ts < t + off) \<or> in_gap off rest ts)"

definition skipped :: "ZoneInfo \<Rightarrow> datetime \<Rightarrow> bool" where
  "skipped z dt = in_gap (utcoff_before z) (transitions z) (dt div 1000000)"

definition ascending :: "ZoneInfo \<Rightarrow> bool" where
  "ascending z = sorted_wrt (<) (map fst (transitions z))"

text \<open>
  Europe/Berlin (the default \<^verbatim>\<open>TIMEZONE\<close>) around 2025: CET until
  2025-03-30T01:00:00Z, CEST until 2025-10-26T01:00:00Z, CET after.
\<close>

definition europe_berlin_2025 :: ZoneInfo where
  "europe_berlin_2025 =
     \<lparr>utcoff_before = 3600, transitions = [(1743296400, 7200), (1761440400, 3600)]\<rparr>"

section \<open>Request handlers (app/routers/orders.py, app/routers/items.py)\<close>

text \<open>
  What a handler reads from outside the program during one request: the module constants,
  the clock, the UUIDs it draws, the outcome of the sends of the broadcast and the
  signature check of \<^verbatim>\<open>unsign_token\<close>.
\<close>

record env =
  OIDC_ENABLED :: bool
  LOCAL_TZ :: ZoneInfo
  utcnow :: datetime
  session_uuid :: string
  uuid_a :: string
  uuid_b :: string
  send_raises :: "websocket \<Rightarrow> bool"
  unsign_token :: "string \<Rightarrow> string option"

text \<open>
  What a handler can change: the database, the session of the request, the subscriptions
  of the connection manager; \<open>sent\<close> collects the sends made.
\<close>

record state =
  db :: database
  sess :: session
  subs :: subscriptions
  sent :: "(websocket \<times> json \<times> bool) list"

datatype response =
    RedirectResponse string nat
  | ItemsResponse "OrderItem list"

record item_form =
  f_person_name :: string
  f_product_name :: string
  f_quantity :: string
  f_product_sku :: string
  f_product_url :: string
  f_note :: string

text \<open>Python's \<^verbatim>\<open>s or d\<close> on strings: the empty string is false.\<close>

definition or_str :: "string \<Rightarrow> string \<Rightarrow> string" where
  "or_str s d = (if s = [] then d else s)"

definition or_none :: "string \<Rightarrow> string option" where
  "or_none s = (if s = [] then None else Some s)"

definition scalar_one_or_none :: "'a list \<Rightarrow> error + 'a option" where
  "scalar_one_or_none rows =
     (case rows of [] \<Rightarrow> Inr None | [r] \<Rightarrow> Inr (Some r) | _ \<Rightarrow> Inl MultipleResultsFound)"

definition get_order :: "string \<Rightarrow> database \<Rightarrow> error + Order" where
  "get_order oid d =
     (case scalar_one_or_none (filter (\<lambda>ord. o_id ord = oid) (orders d)) of
        Inl e \<Rightarrow> Inl e
      | Inr None \<Rightarrow> Inl (HTTPException 404 ''Order not found'')
      | Inr (Some ord) \<Rightarrow> Inr ord)"

definition get_item :: "string \<Rightarrow> string \<Rightarrow> database \<Rightarrow> error + OrderItem" where
  "get_item iid oid d =
     (case scalar_one_or_none
             (filter (\<lambda>it. i_id it = iid \<and> order_id it = oid) (order_items d)) of
        Inl e \<Rightarrow> Inl e
      | Inr None \<Rightarrow> Inl (HTTPException 404 ''Item not found'')
      | Inr (Some it) \<Rightarrow> Inr it)"

text \<open>The relationship \<^verbatim>\<open>order.items\<close>.\<close>

definition items_of :: "database \<Rightarrow> Order \<Rightarrow> OrderItem list" where
  "items_of d ord = filter (\<lambda>it. order_id it = o_id ord) (order_items d)"

text \<open>Inserting a row whose primary key is taken fails at the commit.\<close>

definition add_order :: "database \<Rightarrow> Order \<Rightarrow> error + database" where
  "add_order d ord =
     (if o_id ord \<in> set (map o_id (orders d)) then Inl IntegrityError
      else Inr (d\<lparr>orders := orders d @ [ord]\<rparr>))"

definition add_order_item :: "database \<Rightarrow> OrderItem \<Rightarrow> error + database" where
  "add_order_item d it =
     (if i_id it \<in> set (map i_id (order_items d)) then Inl IntegrityError
      else Inr (d\<lparr>order_items := order_items d @ [it]\<rparr>))"

definition run_broadcast :: "env \<Rightarrow> state \<Rightarrow> string \<Rightarrow> string option \<Rightarrow> state" where
  "run_broadcast e st oid dl =
     (let (subs', trace) = broadcast (send_raises e) (subs st) oid dl
      in st\<lparr>subs := subs', sent := sent st @ trace\<rparr>)"

text \<open>
  \<^verbatim>\<open>create_order\<close>; \<open>dl\<close> is the result of \<^verbatim>\<open>datetime.fromisoformat\<close> on the
  submitted string, \<open>None\<close> when it raises \<^verbatim>\<open>ValueError\<close>.
\<close>

definition create_order :: "env \<Rightarrow> state \<Rightarrow> string \<Rightarrow> string \<Rightarrow> datetime option
    \<Rightarrow> bool \<Rightarrow> bool \<Rightarrow> bool \<Rightarrow> (error + response) \<times> state" where
  "create_order e st vname vurl dl inv_only allow priv =
     (case get_identity (session_uuid e) (sess st) of
        Inl err \<Rightarrow> (Inl err, st)
      | Inr (ident, s1) \<Rightarrow>
          (let st1 = st\<lparr>sess := s1\<rparr> in
           case dl of
             None \<Rightarrow> (Inl (HTTPException 400 ''Invalid deadline format''), st1)
           | Some dt_local \<Rightarrow>
               (case local_to_utc (LOCAL_TZ e) dt_local of
                  Inl err \<Rightarrow> (Inl err, st1)
                | Inr dt \<Rightarrow>
                    (let ord = \<lparr>o_id = uuid_a e, admin_token = uuid_b e,
                                vendor_name = vname, vendor_url = vurl, deadline = dt,
                                creator_name = or_str (ident_name ident) ''Admin'',
                                creator_identifier =
                                  (if ident_type ident = ''oidc'' then Some (ident_id ident)
                                   else None),
                                invite_only = inv_only,
                                allow_oidc = (allow \<and> inv_only),
                                privacy_mode = (priv \<and> inv_only)\<rparr>
                     in case add_order (db st1) ord of
                          Inl err \<Rightarrow> (Inl err, st1)
                        | Inr d' \<Rightarrow>
                            (Inr (RedirectResponse
                                    (''/orders/'' @ o_id ord @ ''/admin/'' @ admin_token ord) 303),
                             st1\<lparr>db := d'\<rparr>)))))"

definition enter_admin :: "state \<Rightarrow> string \<Rightarrow> string \<Rightarrow> (error + response) \<times> state" where
  "enter_admin st oid tok =
     (case get_order oid (db st) of
        Inl err \<Rightarrow> (Inl err, st)
      | Inr ord \<Rightarrow>
          if admin_token ord \<noteq> tok then (Inl (HTTPException 403 ''Invalid admin token''), st)
          else (Inr (RedirectResponse (''/orders/'' @ oid) 303),
                st\<lparr>sess := set_order_admin (sess st) oid\<rparr>))"

definition join_via_token :: "env \<Rightarrow> state \<Rightarrow> string \<Rightarrow> string \<Rightarrow> (error + response) \<times> state" where
  "join_via_token e st oid tok =
     (case unsign_token e tok of
        None \<Rightarrow> (Inl (HTTPException 400 ''Invalid or expired token''), st)
      | Some raw_id \<Rightarrow>
          (case scalar_one_or_none
                  (filter (\<lambda>t. token t = tok \<and> t_order_id t = oid) (email_tokens (db st))) of
             Inl err \<Rightarrow> (Inl err, st)
           | Inr None \<Rightarrow> (Inl (HTTPException 404 ''Token not found''), st)
           | Inr (Some email_token) \<Rightarrow>
               (Inr (RedirectResponse (''/orders/'' @ oid) 303),
                st\<lparr>sess := set_token_identity (sess st) tok (display_name email_token)\<rparr>)))"

definition update_settings :: "state \<Rightarrow> string \<Rightarrow> bool \<Rightarrow> (error + response) \<times> state" where
  "update_settings st oid allow =
     (case get_order oid (db st) of
        Inl err \<Rightarrow> (Inl err, st)
      | Inr ord \<Rightarrow>
          if \<not> is_order_admin (sess st) ord
          then (Inl (HTTPException 403 ''Only the admin can change settings''), st)
          else (Inr (RedirectResponse (''/orders/'' @ oid) 303),
                st\<lparr>db := (db st)\<lparr>orders :=
                   map (\<lambda>r. if o_id r = o_id ord
                             then r\<lparr>allow_oidc := (allow \<and> invite_only ord)\<rparr> else r)
                       (orders (db st))\<rparr>\<rparr>))"

definition items_response :: "state \<Rightarrow> Order \<Rightarrow> identity \<Rightarrow> response" where
  "items_response st ord ident =
     (let is_admin = is_order_admin (sess st) ord
      in ItemsResponse (filter (\<lambda>it. can_see_item ident it ord is_admin) (items_of (db st) ord)))"

definition add_item :: "env \<Rightarrow> state \<Rightarrow> string \<Rightarrow> item_form \<Rightarrow> (error + response) \<times> state" where
  "add_item e st oid form =
     (case get_order oid (db st) of
        Inl err \<Rightarrow> (Inl err, st)
      | Inr ord \<Rightarrow>
         (case get_identity (session_uuid e) (sess st) of
            Inl err \<Rightarrow> (Inl err, st)
          | Inr (ident, s1) \<Rightarrow>
             (let st1 = st\<lparr>sess := s1\<rparr>;
                  is_admin = is_order_admin s1 ord
              in if \<not> can_add_item ident ord is_admin
                 then (Inl (HTTPException 403
                    ''This order is invite-only. Use your invite link to participate.''), st1)
                 else if utcnow e > deadline ord \<and> \<not> is_admin
                 then (Inl (HTTPException 403 ''Order is closed''), st1)
                 else
                  (let pname = (if ident_type ident = ''token'' then ident_name ident
                                else f_person_name form);
                       remember = (ident_type ident = ''anon'' \<and> ident_name ident = []);
                       st2 = (if remember
                              then st1\<lparr>sess := s1\<lparr>identity_name := Some pname\<rparr>\<rparr> else st1);
                       ident2 = (if remember then ident\<lparr>ident_name := pname\<rparr> else ident);
                       item = \<lparr>i_id = uuid_a e, order_id = oid,
                               person_identifier = ident_id ident2, person_name = pname,
                               product_name = f_product_name form,
                               product_sku = or_none (f_product_sku form),
                               product_url = or_none (f_product_url form),
                               quantity = or_str (f_quantity form) ''1'',
                               i_note = or_none (f_note form)\<rparr>
                   in case add_order_item (db st2) item of
                        Inl err \<Rightarrow> (Inl err, st2)
                      | Inr d' \<Rightarrow>
                          (let st3 = run_broadcast e (st2\<lparr>db := d'\<rparr>) oid None
                           in (Inr (items_response st3 ord ident2), st3))))))"

definition edit_item :: "env \<Rightarrow> state \<Rightarrow> string \<Rightarrow> string \<Rightarrow> item_form
    \<Rightarrow> (error + response) \<times> state" where
  "edit_item e st oid iid form =
     (case get_order oid (db st) of
        Inl err \<Rightarrow> (Inl err, st)
      | Inr ord \<Rightarrow>
         (case get_identity (session_uuid e) (sess st) of
            Inl err \<Rightarrow> (Inl err, st)
          | Inr (ident, s1) \<Rightarrow>
             (let st1 = st\<lparr>sess := s1\<rparr>;
                  is_admin = is_order_admin s1 ord
              in case get_item iid oid (db st1) of
                   Inl err \<Rightarrow> (Inl err, st1)
                 | Inr item \<Rightarrow>
                    if \<not> can_edit_item (OIDC_ENABLED e) ident item ord is_admin
                    then (Inl (HTTPException 403 ''Not allowed to edit this item''), st1)
                    else if utcnow e > deadline ord \<and> \<not> is_admin
                    then (Inl (HTTPException 403 ''Order is closed''), st1)
                    else
                     (let item' = item\<lparr>
                            person_name := (if ident_type ident = ''token'' then ident_name ident
                                            else f_person_name form),
                            product_name := f_product_name form,
                            quantity := or_str (f_quantity form) ''1'',
                            product_sku := or_none (f_product_sku form),
                            product_url := or_none (f_product_url form),
                            i_note := or_none (f_note form)\<rparr>;
                          d' = (db st1)\<lparr>order_items :=
                                 map (\<lambda>r. if i_id r = i_id item then item' else r)
                                     (order_items (db st1))\<rparr>;
                          st3 = run_broadcast e (st1\<lparr>db := d'\<rparr>) oid None
                      in (Inr (items_response st3 ord ident), st3)))))"

definition delete_item :: "env \<Rightarrow> state \<Rightarrow> string \<Rightarrow> string \<Rightarrow> (error + response) \<times> state" where
  "delete_item e st oid iid =
     (case get_order oid (db st) of
        Inl err \<Rightarrow> (Inl err, st)
      | Inr ord \<Rightarrow>
         (case get_identity (session_uuid e) (sess st) of
            Inl err \<Rightarrow> (Inl err, st)
          | Inr (ident, s1) \<Rightarrow>
             (let st1 = st\<lparr>sess := s1\<rparr>;
                  is_admin = is_order_admin s1 ord
              in case get_item iid oid (db st1) of
                   Inl err \<Rightarrow> (Inl err, st1)
                 | Inr item \<Rightarrow>
                    if \<not> can_edit_item (OIDC_ENABLED e) ident item ord is_admin
                    then (Inl (HTTPException 403 ''Not allowed to delete this item''), st1)
                    else if utcnow e > deadline ord \<and> \<not> is_admin
                    then (Inl (HTTPException 403 ''Order is closed''), st1)
                    else
                     (let d' = (db st1)\<lparr>order_items :=
                                 filter (\<lambda>r. i_id r \<noteq> i_id item) (order_items (db st1))\<rparr>;
                          st3 = run_broadcast e (st1\<lparr>db := d'\<rparr>) oid None
                      in (Inr (items_response st3 ord ident), st3)))))"

section \<open>CSV export (app/export.py)\<close>

text \<open>
  Python's \<^verbatim>\<open>int(s)\<close> on a string, \<open>None\<close> for \<^verbatim>\<open>ValueError\<close>: surrounding
  white space is stripped, one sign may lead, and single underscores may separate digits.
  Characters are code points below 256. The interpreter's limit on the length of a
  decimal literal is not modelled.
\<close>

definition is_space :: "char \<Rightarrow> bool" where
  "is_space c = (of_char c \<in> {9, 10, 11, 12, 13, 32, 133, 160 :: nat})"

definition is_digit :: "char \<Rightarrow> bool" where
  "is_digit c = (48 \<le> (of_char c :: nat) \<and> (of_char c :: nat) \<le> 57)"

definition strip :: "string \<Rightarrow> string" where
  "strip s = rev (dropWhile is_space (rev (dropWhile is_space s)))"

fun scan_digits :: "nat \<Rightarrow> bool \<Rightarrow> string \<Rightarrow> nat option" where
  "scan_digits acc prev_digit [] = (if prev_digit then Some acc else None)"
| "scan_digits acc prev_digit (c # cs) =
     (if is_digit c then scan_digits (10 * acc + (of_char c - 48)) True cs
      else if c = CHR ''_'' \<and> prev_digit then scan_digits acc False cs
      else None)"

definition py_int :: "string \<Rightarrow> int option" where
  "py_int s =
     (case strip s of
        [] \<Rightarrow> None
      | c # cs \<Rightarrow>
          if c = CHR ''-'' then map_option (\<lambda>n. - int n) (scan_digits 0 False cs)
          else if c = CHR ''+'' then map_option int (scan_digits 0 False cs)
          else map_option int (scan_digits 0 False (c # cs)))"

text \<open>Python's \<^verbatim>\<open>str(n)\<close> on an integer.\<close>

function str_of_nat :: "nat \<Rightarrow> string" where
  "str_of_nat n =
     (if n < 10 then [char_of (48 + n)]
      else str_of_nat (n div 10) @ [char_of (48 + n mod 10)])"
  by pat_completeness auto
termination
  by (relation "measure id") auto

declare str_of_nat.simps [simp del]

definition str_of_int :: "int \<Rightarrow> string" where
  "str_of_int i = (if i < 0 then CHR ''-'' # str_of_nat (nat (- i)) else str_of_nat (nat i))"

text \<open>
  The value under \<^verbatim>\<open>"total_quantity"\<close> is an \<^verbatim>\<open>int\<close> or a \<^verbatim>\<open>str\<close>.
  \<^verbatim>\<open>total += int(q)\<close> on a string total raises \<^verbatim>\<open>TypeError\<close>, which the
  \<^verbatim>\<open>except ValueError\<close> clause does not catch.
\<close>

datatype total = TInt int | TStr string

definition str_of_total :: "total \<Rightarrow> string" where
  "str_of_total t = (case t of TInt i \<Rightarrow> str_of_int i | TStr s \<Rightarrow> s)"

type_synonym group_key = "string \<times> string \<times> string \<times> string"

record product_group =
  g_product :: string
  g_sku :: string
  g_url :: string
  g_note :: string
  total_quantity :: total

record product_row =
  r_product :: string
  r_sku :: string
  r_total_quantity :: total
  r_contributors :: string
  r_url :: string
  r_note :: string

record person_row =
  p_person :: string
  p_product :: string
  p_sku :: string
  p_quantity :: string
  p_note :: string
  p_url :: string

datatype csv_rows = PersonRows "person_row list" | ProductRows "product_row list"

definition opt_str :: "string option \<Rightarrow> string" where
  "opt_str v = (case v of None \<Rightarrow> [] | Some s \<Rightarrow> s)"

definition item_key :: "OrderItem \<Rightarrow> group_key" where
  "item_key it =
     (product_name it, opt_str (product_sku it), opt_str (product_url it), opt_str (i_note it))"

definition add_quantity :: "total \<Rightarrow> string \<Rightarrow> error + total" where
  "add_quantity cur q =
     (case py_int q of
        None \<Rightarrow> Inr (TStr (str_of_total cur @ ''+'' @ q))
      | Some n \<Rightarrow> (case cur of TInt m \<Rightarrow> Inr (TInt (m + n)) | TStr s \<Rightarrow> Inl TypeError))"

text \<open>
  The loop over the items: \<open>aggregated\<close> is the dictionary in insertion order,
  \<open>contributors\<close> the \<^verbatim>\<open>defaultdict(list)\<close>.
\<close>

fun aggregate :: "OrderItem list \<Rightarrow> (group_key \<times> product_group) list
    \<Rightarrow> (group_key \<Rightarrow> string list)
    \<Rightarrow> error + ((group_key \<times> product_group) list \<times> (group_key \<Rightarrow> string list))" where
  "aggregate [] aggregated contributors = Inr (aggregated, contributors)"
| "aggregate (it # rest) aggregated contributors =
     (let key = item_key it;
          agg1 = (if key \<notin> set (map fst aggregated)
                  then aggregated @ [(key, \<lparr>g_product = product_name it,
                          g_sku = opt_str (product_sku it), g_url = opt_str (product_url it),
                          g_note = opt_str (i_note it), total_quantity = TInt 0\<rparr>)]
                  else aggregated)
      in case map_of agg1 key of
           None \<Rightarrow> Inl (KeyError ''key'')
         | Some g \<Rightarrow>
            (case add_quantity (total_quantity g) (quantity it) of
               Inl err \<Rightarrow> Inl err
             | Inr t \<Rightarrow>
                 aggregate rest
                   (map (\<lambda>(k, g'). if k = key then (k, g'\<lparr>total_quantity := t\<rparr>) else (k, g')) agg1)
                   (contributors(key := contributors key
                        @ [person_name it @ [char_of (215 :: nat)] @ quantity it]))))"

fun join :: "string \<Rightarrow> string list \<Rightarrow> string" where
  "join sep [] = []"
| "join sep [x] = x"
| "join sep (x # y # ys) = x @ sep @ join sep (y # ys)"

definition export_csv :: "Order \<Rightarrow> OrderItem list \<Rightarrow> string
    \<Rightarrow> error + (string \<times> string list \<times> csv_rows)" where
  "export_csv ord items grp =
     (let filename = ''order-'' @ take 8 (o_id ord) @ ''-'' @ grp @ ''.csv''
      in if grp = ''person''
         then Inr (filename,
                   [''person'', ''product'', ''sku'', ''quantity'', ''note'', ''url''],
                   PersonRows (map (\<lambda>it. \<lparr>p_person = person_name it, p_product = product_name it,
                                            p_sku = opt_str (product_sku it),
                                            p_quantity = quantity it,
                                            p_note = opt_str (i_note it),
                                            p_url = opt_str (product_url it)\<rparr>)
                                   (sort_key person_name items)))
         else
           (case aggregate items [] (\<lambda>k. []) of
              Inl err \<Rightarrow> Inl err
            | Inr (aggregated, contributors) \<Rightarrow>
                Inr (filename,
                     [''product'', ''sku'', ''total_quantity'', ''contributors'', ''url'', ''note''],
                     ProductRows (sort_key r_product
                       (map (\<lambda>(key, g). \<lparr>r_product = g_product g, r_sku = g_sku g,
                                          r_total_quantity = total_quantity g,
                                          r_contributors = join ''; '' (contributors key),
                                          r_url = g_url g, r_note = g_note g\<rparr>)
                            aggregated)))))"

section \<open>Sample data\<close>

text \<open>
  A well-formed session never has an identity id without its type: the three identity
  keys are written together.
\<close>

definition session_ok :: "session \<Rightarrow> bool" where
  "session_ok s = (identity_id s = None \<or> identity_type s \<noteq> None)"

text \<open>
  One open order with deadline 100, one item on it, one invite token, and three live
  connections of which the second one's send fails; the clock stands at 200.
\<close>

definition demo_order :: Order where
  "demo_order = \<lparr>o_id = ''o1'', admin_token = ''s1'', vendor_name = ''Shop'',
     vendor_url = ''http://shop'', deadline = 100, creator_name = ''Admin'',
     creator_identifier = None, invite_only = False, allow_oidc = False,
     privacy_mode = False\<rparr>"

definition demo_item :: OrderItem where
  "demo_item = \<lparr>i_id = ''i1'', order_id = ''o1'', person_identifier = ''a1'',
     person_name = ''Al'', product_name = ''tea'', product_sku = None, product_url = None,
     quantity = ''1'', i_note = None\<rparr>"

definition demo_token :: EmailToken where
  "demo_token = \<lparr>token = ''tk'', t_order_id = ''o1'', display_name = ''Carol''\<rparr>"

definition demo_env :: env where
  "demo_env = \<lparr>OIDC_ENABLED = False, LOCAL_TZ = europe_berlin_2025, utcnow = 200,
     session_uuid = ''u0'', uuid_a = ''n1'', uuid_b = ''n2'',
     send_raises = (\<lambda>ws. ws = 2), unsign_token = (\<lambda>t. Some t)\<rparr>"

definition demo_state :: state where
  "demo_state = \<lparr>db = \<lparr>orders = [demo_order], order_items = [demo_item],
       email_tokens = [demo_token]\<rparr>,
     sess = empty_session, subs = [''o1'' \<mapsto> [1, 2, 3]], sent = []\<rparr>"

definition demo_form :: item_form where
  "demo_form = \<lparr>f_person_name = ''Mallory'', f_product_name = ''mate'', f_quantity = ''2'',
     f_product_sku = [], f_product_url = [], f_note = []\<rparr>"

section \<open>Authorization engine\<close>

text \<open>
  C1 (as amended). With no external authentication configured and an order that is not
  invite-only, a caller who is not an admin may edit an item exactly when its identity is
  anonymous or its id is the item's contributor key: the open mode covers anonymous
  identities only, an invite identity keeps to its own items.
\<close>

theorem can_edit_item_open_mode:
  assumes "\<not> oidc_enabled" and "\<not> invite_only ord"
  shows "can_edit_item oidc_enabled ident item ord False
         = (ident_type ident = ''anon'' \<or> ident_id ident = person_identifier item)"
  using assms by (simp add: can_edit_item_def)

theorem can_edit_item_open_mode_witness:
  "can_edit_item False \<lparr>ident_type = ''anon'', ident_id = ''zz'', ident_name = ''''\<rparr>
      demo_item demo_order False"
proof -
  have "\<not> invite_only demo_order" by code_simp
  from can_edit_item_open_mode [OF _ this, of False
      "\<lparr>ident_type = ''anon'', ident_id = ''zz'', ident_name = ''''\<rparr>" demo_item]
  show ?thesis by simp
qed

theorem can_edit_item_open_counterexample:
  "\<not> invite_only demo_order
   \<and> \<not> can_edit_item False \<lparr>ident_type = ''token'', ident_id = ''tk'', ident_name = ''Carol''\<rparr>
         demo_item demo_order False"
  by code_simp

text \<open>
  C4. \<^verbatim>\<open>can_add_item\<close> is true for an admin; otherwise, on an invite-only order,
  exactly for an invite identity or an external identity when the order admits external
  users; otherwise for every identity.
\<close>

theorem can_add_item_spec:
  "can_add_item ident ord is_admin =
     (if is_admin then True
      else if invite_only ord
        then (ident_type ident = ''token'' \<or> (ident_type ident = ''oidc'' \<and> allow_oidc ord))
      else True)"
  by (simp add: can_add_item_def)

theorem can_add_item_spec_witness:
  "\<not> can_add_item \<lparr>ident_type = ''oidc'', ident_id = ''K'', ident_name = ''Kim''\<rparr>
       (demo_order\<lparr>invite_only := True\<rparr>) False
   \<and> can_add_item \<lparr>ident_type = ''token'', ident_id = ''tk'', ident_name = ''Carol''\<rparr>
       (demo_order\<lparr>invite_only := True\<rparr>) False"
  using can_add_item_spec [of "\<lparr>ident_type = ''oidc'', ident_id = ''K'', ident_name = ''Kim''\<rparr>"
        "demo_order\<lparr>invite_only := True\<rparr>" False]
    can_add_item_spec [of "\<lparr>ident_type = ''token'', ident_id = ''tk'', ident_name = ''Carol''\<rparr>"
        "demo_order\<lparr>invite_only := True\<rparr>" False]
  by (simp add: demo_order_def)

text \<open>
  C6 (as amended). A session is admin of an order exactly when the order's id is in the
  session's admin-granted list, or the session's identity is external and the order has a
  non-empty creator key equal to the identity's id. A new session that holds the creator's
  identity is admin without a visit to the admin URL.
\<close>

theorem is_order_admin_spec:
  "is_order_admin s ord =
     (o_id ord \<in> set (case admin_orders s of None \<Rightarrow> [] | Some l \<Rightarrow> l)
      \<or> (identity_type s = Some ''oidc''
         \<and> (\<exists>k. k \<noteq> [] \<and> creator_identifier ord = Some k \<and> identity_id s = Some k)))"
  by (cases "creator_identifier ord") (auto simp: is_order_admin_def truthy_def)

theorem is_order_admin_spec_witness:
  "is_order_admin (set_oidc_identity empty_session ''K'' ''Kim'')
     (demo_order\<lparr>creator_identifier := Some ''K''\<rparr>)"
  using is_order_admin_spec [of "set_oidc_identity empty_session ''K'' ''Kim''"
      "demo_order\<lparr>creator_identifier := Some ''K''\<rparr>"]
  by (simp add: set_oidc_identity_def empty_session_def demo_order_def)

theorem is_order_admin_counterexample:
  "identity_type (set_oidc_identity empty_session [] ''Eve'') = Some ''oidc''
   \<and> identity_id (set_oidc_identity empty_session [] ''Eve'')
       = creator_identifier (demo_order\<lparr>creator_identifier := Some []\<rparr>)
   \<and> \<not> is_order_admin (set_oidc_identity empty_session [] ''Eve'')
         (demo_order\<lparr>creator_identifier := Some []\<rparr>)"
  by code_simp

section \<open>Admin grant\<close>

lemma get_order_cases:
  "(filter (\<lambda>ord. o_id ord = oid) (orders d) = []
      \<longrightarrow> get_order oid d = Inl (HTTPException 404 ''Order not found''))
   \<and> (filter (\<lambda>ord. o_id ord = oid) (orders d) = [ord] \<longrightarrow> get_order oid d = Inr ord)"
  by (simp add: get_order_def scalar_one_or_none_def)

lemma enter_admin_error_keeps_state:
  "fst (enter_admin st oid tok) = Inl err \<Longrightarrow> snd (enter_admin st oid tok) = st"
  by (cases "get_order oid (db st)") (simp_all add: enter_admin_def split: if_splits)

lemma get_order_unique:
  assumes "get_order oid d = Inr ord"
  shows "o_id ord = oid" and "ord \<in> set (orders d)"
    and "x \<in> set (orders d) \<Longrightarrow> o_id x = oid \<Longrightarrow> x = ord"
proof -
  from assms have f: "filter (\<lambda>r. o_id r = oid) (orders d) = [ord]"
    by (auto simp: get_order_def scalar_one_or_none_def split: list.splits sum.splits option.splits)
  then have s: "set (filter (\<lambda>r. o_id r = oid) (orders d)) = {ord}" by simp
  from s show "o_id ord = oid" by auto
  from s show "ord \<in> set (orders d)" by auto
  show "x \<in> set (orders d) \<Longrightarrow> o_id x = oid \<Longrightarrow> x = ord" using s by auto
qed

text \<open>
  C2 (as amended). A failed grant leaves the state, and so the session, as it was. The
  failure is 404 "Order not found" when no order has the id, and 403 "Invalid admin token"
  when the order exists and the secret does not match.
\<close>

theorem enter_admin_failure:
  "(filter (\<lambda>ord. o_id ord = oid) (orders (db st)) = []
      \<longrightarrow> fst (enter_admin st oid tok) = Inl (HTTPException 404 ''Order not found''))
   \<and> (filter (\<lambda>ord. o_id ord = oid) (orders (db st)) = [ord] \<and> admin_token ord \<noteq> tok
      \<longrightarrow> fst (enter_admin st oid tok) = Inl (HTTPException 403 ''Invalid admin token''))
   \<and> (fst (enter_admin st oid tok) = Inl err \<longrightarrow> snd (enter_admin st oid tok) = st)"
proof (intro conjI impI)
  assume "filter (\<lambda>ord. o_id ord = oid) (orders (db st)) = []"
  with get_order_cases [of oid "db st"]
  have "get_order oid (db st) = Inl (HTTPException 404 ''Order not found'')" by blast
  then show "fst (enter_admin st oid tok) = Inl (HTTPException 404 ''Order not found'')"
    by (simp add: enter_admin_def)
next
  assume a: "filter (\<lambda>ord. o_id ord = oid) (orders (db st)) = [ord] \<and> admin_token ord \<noteq> tok"
  with get_order_cases [of oid "db st" ord] have "get_order oid (db st) = Inr ord" by blast
  with a show "fst (enter_admin st oid tok) = Inl (HTTPException 403 ''Invalid admin token'')"
    by (simp add: enter_admin_def)
next
  assume "fst (enter_admin st oid tok) = Inl err"
  then show "snd (enter_admin st oid tok) = st" by (rule enter_admin_error_keeps_state)
qed

theorem enter_admin_failure_witness:
  "fst (enter_admin demo_state ''o1'' ''guess'') = Inl (HTTPException 403 ''Invalid admin token'')
   \<and> sess (snd (enter_admin demo_state ''o1'' ''guess'')) = sess demo_state"
proof -
  have h: "filter (\<lambda>ord. o_id ord = ''o1'') (orders (db demo_state)) = [demo_order]
      \<and> admin_token demo_order \<noteq> ''guess''"
    by code_simp
  note t = enter_admin_failure [where oid = "''o1''" and st = demo_state and ord = demo_order
      and tok = "''guess''" and err = "HTTPException 403 ''Invalid admin token''"]
  from t [THEN conjunct2, THEN conjunct1, THEN mp, OF h]
  have f: "fst (enter_admin demo_state ''o1'' ''guess'') = Inl (HTTPException 403 ''Invalid admin token'')" .
  from t [THEN conjunct2, THEN conjunct2, THEN mp, OF f]
  have "snd (enter_admin demo_state ''o1'' ''guess'') = demo_state" .
  with f show ?thesis by (simp only: simp_thms)
qed

theorem enter_admin_failure_counterexample:
  "fst (enter_admin (demo_state\<lparr>db := (db demo_state)\<lparr>orders := []\<rparr>\<rparr>) ''o1'' ''guess'')
     = Inl (HTTPException 404 ''Order not found'')
   \<and> fst (enter_admin demo_state ''o1'' ''guess'') = Inl (HTTPException 403 ''Invalid admin token'')"
  by code_simp

section \<open>Order flags\<close>

lemma create_order_stores:
  assumes "fst (create_order e st vn vu dl io allow priv) = Inr r"
  shows "\<exists>ord. orders (db (snd (create_order e st vn vu dl io allow priv))) = orders (db st) @ [ord]
         \<and> invite_only ord = io
         \<and> allow_oidc ord = (allow \<and> io) \<and> privacy_mode ord = (priv \<and> io)"
  using assms
  by (auto simp: create_order_def add_order_def Let_def
      split: sum.splits option.splits if_splits prod.splits)

lemma create_order_orders:
  "orders (db (snd (create_order e st vn vu dl io allow priv))) = orders (db st)
   \<or> (\<exists>ord. orders (db (snd (create_order e st vn vu dl io allow priv))) = orders (db st) @ [ord]
        \<and> invite_only ord = io \<and> allow_oidc ord = (allow \<and> io) \<and> privacy_mode ord = (priv \<and> io))"
  by (auto simp: create_order_def add_order_def Let_def
      split: sum.splits option.splits if_splits prod.splits)

lemma update_settings_orders:
  "orders (db (snd (update_settings st oid allow))) = orders (db st)
   \<or> (\<exists>ord. get_order oid (db st) = Inr ord \<and>
        orders (db (snd (update_settings st oid allow)))
          = map (\<lambda>r. if o_id r = o_id ord then r\<lparr>allow_oidc := (allow \<and> invite_only ord)\<rparr> else r)
                (orders (db st)))"
  by (auto simp: update_settings_def split: sum.splits)

lemma ok_created:
  assumes "created = old \<or> (\<exists>ord. created = old @ [ord] \<and> invite_only ord = io
        \<and> allow_oidc ord = (allow \<and> io) \<and> privacy_mode ord = (priv \<and> io))"
    and "\<forall>ord \<in> set old. \<not> invite_only ord \<longrightarrow> \<not> allow_oidc ord \<and> \<not> privacy_mode ord"
  shows "\<forall>ord \<in> set created. \<not> invite_only ord \<longrightarrow> \<not> allow_oidc ord \<and> \<not> privacy_mode ord"
  using assms by auto

lemma ok_updated:
  assumes o: "updated = map (\<lambda>r. if o_id r = o_id ord then r\<lparr>allow_oidc := (allow' \<and> invite_only ord)\<rparr> else r) old"
    and same: "\<And>x. x \<in> set old \<Longrightarrow> o_id x = o_id ord \<Longrightarrow> x = ord"
    and inv: "\<forall>ord \<in> set old. \<not> invite_only ord \<longrightarrow> \<not> allow_oidc ord \<and> \<not> privacy_mode ord"
  shows "\<forall>ord \<in> set updated. \<not> invite_only ord \<longrightarrow> \<not> allow_oidc ord \<and> \<not> privacy_mode ord"
proof
  fix y assume "y \<in> set updated"
  then have "y \<in> (\<lambda>r. if o_id r = o_id ord then r\<lparr>allow_oidc := (allow' \<and> invite_only ord)\<rparr> else r) ` set old"
    unfolding o by (simp only: set_map)
  then obtain x where x: "x \<in> set old"
    and y: "y = (if o_id x = o_id ord then x\<lparr>allow_oidc := (allow' \<and> invite_only ord)\<rparr> else x)"
    by (rule imageE)
  from inv x have okx: "\<not> invite_only x \<longrightarrow> \<not> allow_oidc x \<and> \<not> privacy_mode x" by (rule bspec)
  show "\<not> invite_only y \<longrightarrow> \<not> allow_oidc y \<and> \<not> privacy_mode y"
  proof (cases "o_id x = o_id ord")
    case True
    with same x have "x = ord" by blast
    with y True okx show ?thesis by simp
  next
    case False
    with y okx show ?thesis by simp
  qed
qed

text \<open>
  C5. \<^verbatim>\<open>create_order\<close> stores \<^verbatim>\<open>allow_oidc\<close> and \<^verbatim>\<open>privacy_mode\<close> as
  requested only under \<^verbatim>\<open>invite_only\<close>, and false otherwise; and if no stored order
  that is not invite-only has one of the two flags set, the same holds after
  \<^verbatim>\<open>create_order\<close> and after \<^verbatim>\<open>update_settings\<close>, whatever they were asked.
\<close>

theorem flags_cleared:
  "(fst (create_order e st vn vu dl io allow priv) = Inr r \<longrightarrow>
      (\<exists>ord. orders (db (snd (create_order e st vn vu dl io allow priv))) = orders (db st) @ [ord]
         \<and> invite_only ord = io
         \<and> allow_oidc ord = (allow \<and> io) \<and> privacy_mode ord = (priv \<and> io)))
   \<and> ((\<forall>ord \<in> set (orders (db st)). \<not> invite_only ord \<longrightarrow> \<not> allow_oidc ord \<and> \<not> privacy_mode ord)
      \<longrightarrow> (\<forall>ord \<in> set (orders (db (snd (create_order e st vn vu dl io allow priv)))).
             \<not> invite_only ord \<longrightarrow> \<not> allow_oidc ord \<and> \<not> privacy_mode ord)
        \<and> (\<forall>ord \<in> set (orders (db (snd (update_settings st oid allow')))).
             \<not> invite_only ord \<longrightarrow> \<not> allow_oidc ord \<and> \<not> privacy_mode ord))"
proof (intro conjI impI)
  assume "fst (create_order e st vn vu dl io allow priv) = Inr r"
  then show "\<exists>ord. orders (db (snd (create_order e st vn vu dl io allow priv))) = orders (db st) @ [ord]
         \<and> invite_only ord = io
         \<and> allow_oidc ord = (allow \<and> io) \<and> privacy_mode ord = (priv \<and> io)"
    by (rule create_order_stores)
next
  assume inv: "\<forall>ord \<in> set (orders (db st)). \<not> invite_only ord \<longrightarrow> \<not> allow_oidc ord \<and> \<not> privacy_mode ord"
  from create_order_orders inv
  show "\<forall>ord \<in> set (orders (db (snd (create_order e st vn vu dl io allow priv)))).
             \<not> invite_only ord \<longrightarrow> \<not> allow_oidc ord \<and> \<not> privacy_mode ord"
    by (rule ok_created)
next
  assume inv: "\<forall>ord \<in> set (orders (db st)). \<not> invite_only ord \<longrightarrow> \<not> allow_oidc ord \<and> \<not> privacy_mode ord"
  from update_settings_orders [of st oid allow']
  show "\<forall>ord \<in> set (orders (db (snd (update_settings st oid allow')))).
             \<not> invite_only ord \<longrightarrow> \<not> allow_oidc ord \<and> \<not> privacy_mode ord"
  proof (elim disjE exE conjE)
    assume "orders (db (snd (update_settings st oid allow'))) = orders (db st)"
    then show ?thesis using inv by (simp only:)
  next
    fix ord
    assume g: "get_order oid (db st) = Inr ord"
      and o: "orders (db (snd (update_settings st oid allow')))
          = map (\<lambda>r. if o_id r = o_id ord then r\<lparr>allow_oidc := (allow' \<and> invite_only ord)\<rparr> else r)
                (orders (db st))"
    have same: "\<And>x. x \<in> set (orders (db st)) \<Longrightarrow> o_id x = o_id ord \<Longrightarrow> x = ord"
      using get_order_unique(3) [OF g] get_order_unique(1) [OF g] by (simp only:)
    from o same inv show ?thesis by (rule ok_updated)
  qed
qed

theorem flags_cleared_witness:
  "(\<exists>ord. orders (db (snd (create_order demo_env demo_state ''V'' ''u'' (Some 0) False True True)))
        = orders (db demo_state) @ [ord]
      \<and> invite_only ord = False \<and> allow_oidc ord = False \<and> privacy_mode ord = False)
   \<and> list_all (\<lambda>ord. invite_only ord \<or> (\<not> allow_oidc ord \<and> \<not> privacy_mode ord))
        (orders (db (snd (update_settings
          (demo_state\<lparr>sess := set_order_admin empty_session ''o1''\<rparr>) ''o1'' True))))"
proof -
  have f: "fst (create_order demo_env demo_state ''V'' ''u'' (Some 0) False True True)
     = Inr (RedirectResponse ''/orders/n1/admin/n2'' 303)"
    by code_simp
  have i: "\<forall>ord \<in> set (orders (db (demo_state\<lparr>sess := set_order_admin empty_session ''o1''\<rparr>))).
       \<not> invite_only ord \<longrightarrow> \<not> allow_oidc ord \<and> \<not> privacy_mode ord"
    by code_simp
  from flags_cleared [of demo_env demo_state "''V''" "''u''" "Some 0" False True True
      "RedirectResponse ''/orders/n1/admin/n2'' 303", THEN conjunct1, THEN mp, OF f]
  have a: "\<exists>ord. orders (db (snd (create_order demo_env demo_state ''V'' ''u'' (Some 0) False True True)))
        = orders (db demo_state) @ [ord]
      \<and> invite_only ord = False \<and> allow_oidc ord = (True \<and> False) \<and> privacy_mode ord = (True \<and> False)"
    .
  from flags_cleared [of demo_env "demo_state\<lparr>sess := set_order_admin empty_session ''o1''\<rparr>"
      "''V''" "''u''" "Some 0" False True True
      "RedirectResponse ''/orders/n1/admin/n2'' 303" "''o1''" True,
      THEN conjunct2, THEN mp, OF i, THEN conjunct2]
  have b: "\<forall>ord \<in> set (orders (db (snd (update_settings
          (demo_state\<lparr>sess := set_order_admin empty_session ''o1''\<rparr>) ''o1'' True)))).
             \<not> invite_only ord \<longrightarrow> \<not> allow_oidc ord \<and> \<not> privacy_mode ord"
    .
  from b have c: "list_all (\<lambda>ord. invite_only ord \<or> (\<not> allow_oidc ord \<and> \<not> privacy_mode ord))
        (orders (db (snd (update_settings
          (demo_state\<lparr>sess := set_order_admin empty_session ''o1''\<rparr>) ''o1'' True))))"
    unfolding list_all_iff by blast
  from a have "\<exists>ord. orders (db (snd (create_order demo_env demo_state ''V'' ''u'' (Some 0) False True True)))
        = orders (db demo_state) @ [ord]
      \<and> invite_only ord = False \<and> allow_oidc ord = False \<and> privacy_mode ord = False"
    by (simp only: simp_thms)
  then show ?thesis using c by (rule conjI)
qed

section \<open>Broadcast\<close>

lemma send_loop_result:
  "send_loop f p xs dead trace = (dead', trace') \<Longrightarrow>
     set dead' = set dead \<union> {ws \<in> set xs. f ws}
     \<and> trace' = trace @ map (\<lambda>ws. (ws, p, \<not> f ws)) xs"
proof (induction xs arbitrary: dead trace)
  case Nil
  then show ?case by simp
next
  case (Cons x xs)
  show ?case
  proof (cases "f x")
    case True
    with Cons.prems have "send_loop f p xs (if x \<in> set dead then dead else dead @ [x])
        (trace @ [(x, p, False)]) = (dead', trace')" by simp
    from Cons.IH [OF this] True show ?thesis by (auto split: if_splits)
  next
    case False
    with Cons.prems have "send_loop f p xs dead (trace @ [(x, p, True)]) = (dead', trace')"
      by simp
    from Cons.IH [OF this] False show ?thesis by auto
  qed
qed

lemma filter_removeAll_dead:
  "filter (\<lambda>ws. ws \<notin> set dead) (removeAll d xs) = filter (\<lambda>ws. ws \<notin> set (d # dead)) xs"
  by (induction xs) auto

lemma subscribers_unsubscribe:
  "subscribers (unsubscribe m oid ws) oid = removeAll ws (subscribers m oid)"
  by (simp add: unsubscribe_def subscribers_def Let_def)

lemma unsubscribe_other:
  "oid' \<noteq> oid \<Longrightarrow> unsubscribe m oid ws oid' = m oid'"
  by (simp add: unsubscribe_def Let_def)

lemma subscribers_fold_unsubscribe:
  "subscribers (fold (\<lambda>ws m. unsubscribe m oid ws) dead m) oid
     = filter (\<lambda>ws. ws \<notin> set dead) (subscribers m oid)"
proof (induction dead arbitrary: m)
  case Nil
  then show ?case by simp
next
  case (Cons d dead)
  show ?case
    by (simp add: Cons.IH subscribers_unsubscribe filter_removeAll_dead del: set_simps)
qed

lemma fold_unsubscribe_other:
  "oid' \<noteq> oid \<Longrightarrow> fold (\<lambda>ws m. unsubscribe m oid ws) dead m oid' = m oid'"
  by (induction dead arbitrary: m) (simp_all add: unsubscribe_other)

lemma broadcast_result:
  assumes "broadcast f m oid dl = (m', trace)"
  shows "trace = map (\<lambda>ws. (ws, update_payload dl, \<not> f ws)) (subscribers m oid)"
    and "subscribers m' oid = filter (\<lambda>ws. \<not> f ws) (subscribers m oid)"
    and "oid' \<noteq> oid \<Longrightarrow> m' oid' = m oid'"
proof -
  obtain dead tr where sl: "send_loop f (update_payload dl) (subscribers m oid) [] [] = (dead, tr)"
    by (cases "send_loop f (update_payload dl) (subscribers m oid) [] []")
  from send_loop_result [OF sl] have dead: "set dead = {ws \<in> set (subscribers m oid). f ws}"
    and tr: "tr = map (\<lambda>ws. (ws, update_payload dl, \<not> f ws)) (subscribers m oid)" by auto
  from assms sl have m': "m' = fold (\<lambda>ws m. unsubscribe m oid ws) dead m" and "trace = tr"
    by (auto simp: broadcast_def Let_def)
  then show "trace = map (\<lambda>ws. (ws, update_payload dl, \<not> f ws)) (subscribers m oid)"
    using tr by simp
  have "filter (\<lambda>ws. ws \<notin> set dead) (subscribers m oid) = filter (\<lambda>ws. \<not> f ws) (subscribers m oid)"
    by (rule filter_cong) (auto simp: dead)
  then show "subscribers m' oid = filter (\<lambda>ws. \<not> f ws) (subscribers m oid)"
    by (simp add: m' subscribers_fold_unsubscribe)
  show "oid' \<noteq> oid \<Longrightarrow> m' oid' = m oid'"
    by (simp add: m' fold_unsubscribe_other)
qed

text \<open>
  C7. \<^verbatim>\<open>broadcast\<close> sends the update payload once to every connection subscribed
  to the order at the call, in spite of failing sends; it returns without an error; the
  connections whose send failed, and only those, leave the subscriber set of the order,
  other orders keep theirs; and the next broadcast for the order goes to exactly the
  remaining connections. Without a deadline hint the payload is
  \<^verbatim>\<open>{"type": "update", "deadline": null}\<close>, with a hint \<open>d\<close> it is
  \<^verbatim>\<open>{"type": "update", "deadline": d}\<close>.
\<close>

theorem broadcast_best_effort:
  assumes "broadcast f m oid dl = (m', trace)"
  shows "trace = map (\<lambda>ws. (ws, update_payload dl, \<not> f ws)) (subscribers m oid)
    \<and> subscribers m' oid = filter (\<lambda>ws. \<not> f ws) (subscribers m oid)
    \<and> (\<forall>oid'. oid' \<noteq> oid \<longrightarrow> m' oid' = m oid')
    \<and> map fst (snd (broadcast f' m' oid dl')) = filter (\<lambda>ws. \<not> f ws) (subscribers m oid)
    \<and> update_payload None = JObject [(''type'', JString ''update''), (''deadline'', JNull)]
    \<and> update_payload (Some d) = JObject [(''type'', JString ''update''), (''deadline'', JString d)]"
proof -
  obtain m'' trace'' where b2: "broadcast f' m' oid dl' = (m'', trace'')"
    by (cases "broadcast f' m' oid dl'")
  have "map fst trace'' = subscribers m' oid"
    using broadcast_result(1) [OF b2] by (simp add: comp_def)
  with b2 broadcast_result [OF assms] show ?thesis
    by (simp add: update_payload_def)
qed

theorem broadcast_best_effort_witness:
  "snd (broadcast (\<lambda>ws. ws = 2) [''o1'' \<mapsto> [1, 2, 3]] ''o1'' None)
     = [(1, JObject [(''type'', JString ''update''), (''deadline'', JNull)], True),
        (2, JObject [(''type'', JString ''update''), (''deadline'', JNull)], False),
        (3, JObject [(''type'', JString ''update''), (''deadline'', JNull)], True)]
   \<and> subscribers (fst (broadcast (\<lambda>ws. ws = 2) [''o1'' \<mapsto> [1, 2, 3]] ''o1'' None)) ''o1'' = [1, 3]
   \<and> map fst (snd (broadcast (\<lambda>ws. False)
        (fst (broadcast (\<lambda>ws. ws = 2) [''o1'' \<mapsto> [1, 2, 3]] ''o1'' None)) ''o1'' None)) = [1, 3]
   \<and> snd (broadcast (\<lambda>ws. ws = 2) [''o1'' \<mapsto> [1, 2, 3]] ''o1'' (Some ''2025-06-01T10:00:00Z''))
     = [(1, JObject [(''type'', JString ''update''),
                     (''deadline'', JString ''2025-06-01T10:00:00Z'')], True),
        (2, JObject [(''type'', JString ''update''),
                     (''deadline'', JString ''2025-06-01T10:00:00Z'')], False),
        (3, JObject [(''type'', JString ''update''),
                     (''deadline'', JString ''2025-06-01T10:00:00Z'')], True)]"
  using broadcast_best_effort [of "\<lambda>ws. ws = 2" "[''o1'' \<mapsto> [1, 2, 3]]" "''o1''" None
      "fst (broadcast (\<lambda>ws. ws = 2) [''o1'' \<mapsto> [1, 2, 3]] ''o1'' None)"
      "snd (broadcast (\<lambda>ws. ws = 2) [''o1'' \<mapsto> [1, 2, 3]] ''o1'' None)" "\<lambda>ws. False" None
      "''2025-06-01T10:00:00Z''"]
    broadcast_best_effort [of "\<lambda>ws. ws = 2" "[''o1'' \<mapsto> [1, 2, 3]]" "''o1''"
      "Some ''2025-06-01T10:00:00Z''"
      "fst (broadcast (\<lambda>ws. ws = 2) [''o1'' \<mapsto> [1, 2, 3]] ''o1'' (Some ''2025-06-01T10:00:00Z''))"
      "snd (broadcast (\<lambda>ws. ws = 2) [''o1'' \<mapsto> [1, 2, 3]] ''o1'' (Some ''2025-06-01T10:00:00Z''))"
      "\<lambda>ws. False" None "''2025-06-01T10:00:00Z''"]
  by (simp add: subscribers_def)

section \<open>Deadline round trip\<close>

lemma find_trans_bound:
  "find_trans prev tr ts = prev \<or> (\<exists>t. (t, find_trans prev tr ts) \<in> set tr \<and> t + find_trans prev tr ts \<le> ts)"
proof (induction tr arbitrary: prev)
  case Nil
  then show ?case by simp
next
  case (Cons a tr)
  obtain t off where a: "a = (t, off)" by (cases a)
  show ?case
  proof (cases "ts < t + max prev off")
    case True
    then show ?thesis by (simp add: a)
  next
    case False
    from Cons.IH [of off] show ?thesis
    proof
      assume "find_trans off tr ts = off"
      with False show ?thesis by (auto simp: a)
    next
      assume "\<exists>t. (t, find_trans off tr ts) \<in> set tr \<and> t + find_trans off tr ts \<le> ts"
      with False show ?thesis by (auto simp: a)
    qed
  qed
qed

lemma find_trans_round_trip:
  "sorted_wrt (<) (map fst tr) \<Longrightarrow> \<not> in_gap prev tr ts \<Longrightarrow>
   find_trans_utc prev tr (ts - find_trans prev tr ts) = find_trans prev tr ts"
proof (induction tr arbitrary: prev)
  case Nil
  then show ?case by simp
next
  case (Cons a tr)
  obtain t off where a: "a = (t, off)" by (cases a)
  from Cons.prems have sorted: "sorted_wrt (<) (map fst tr)"
    and later: "\<forall>x \<in> set tr. t < fst x"
    and gap_here: "\<not> (prev < off \<and> t + prev \<le> ts \<and> ts < t + off)"
    and gap_rest: "\<not> in_gap off tr ts"
    by (auto simp: a)
  show ?case
  proof (cases "ts < t + max prev off")
    case True
    with gap_here have "ts - prev < t" by (auto simp: max_def split: if_splits)
    with True show ?thesis by (simp add: a)
  next
    case False
    let ?r = "find_trans off tr ts"
    have "t + ?r \<le> ts"
      using find_trans_bound [of off tr ts] False later by (fastforce simp: max_def split: if_splits)
    moreover have "find_trans_utc off tr (ts - ?r) = ?r"
      using Cons.IH [OF sorted gap_rest] .
    ultimately show ?thesis using False by (simp add: a)
  qed
qed

text \<open>
  C9 (as amended). For a zone whose transitions ascend, a submitted local time that no
  forward transition of the zone skips, and whose UTC equivalent is a representable
  datetime, is reproduced exactly by converting to UTC for storage and back to the zone
  for display.
\<close>

theorem deadline_round_trip:
  assumes "ascending z" and "\<not> skipped z dt" and "local_to_utc z dt = Inr u"
    and "datetime_min \<le> dt" and "dt \<le> datetime_max"
  shows "localtime_filter z u = Inr dt"
proof -
  let ?off = "utcoffset z dt"
  from assms(3) have u: "u = dt - 1000000 * ?off"
    by (auto simp: local_to_utc_def checked_def split: if_splits)
  have "u div 1000000 = dt div 1000000 - ?off"
    unfolding u by (simp add: algebra_simps)
  then have "fromutc_offset z u = ?off"
    using find_trans_round_trip [of "transitions z" "utcoff_before z" "dt div 1000000"] assms(1,2)
    by (simp add: fromutc_offset_def utcoffset_def ascending_def skipped_def)
  with u assms(4,5) show ?thesis
    by (simp add: localtime_filter_def checked_def)
qed

theorem deadline_round_trip_witness:
  "localtime_filter europe_berlin_2025 1748772000000000 = Inr 1748779200000000"
proof -
  have "ascending europe_berlin_2025" by (simp add: ascending_def europe_berlin_2025_def)
  moreover have "\<not> skipped europe_berlin_2025 1748779200000000"
    by (simp add: skipped_def europe_berlin_2025_def)
  moreover have "local_to_utc europe_berlin_2025 1748779200000000 = Inr 1748772000000000"
    by (simp add: local_to_utc_def checked_def utcoffset_def europe_berlin_2025_def datetime_min_def datetime_max_def)
  moreover have "datetime_min \<le> 1748779200000000" "1748779200000000 \<le> datetime_max"
    by (simp_all add: datetime_min_def datetime_max_def)
  ultimately show ?thesis by (rule deadline_round_trip)
qed

theorem deadline_round_trip_counterexample:
  "local_to_utc europe_berlin_2025 1743301800000000 = Inr 1743298200000000
   \<and> localtime_filter europe_berlin_2025 1743298200000000 = Inr 1743305400000000"
  by (simp add: local_to_utc_def localtime_filter_def checked_def utcoffset_def fromutc_offset_def
      europe_berlin_2025_def datetime_min_def datetime_max_def)

section \<open>Deadline gate\<close>

lemma session_ok_kept:
  "session_ok empty_session"
  "session_ok (set_oidc_identity s sub name)"
  "session_ok (set_token_identity s tok dname)"
  "session_ok s \<Longrightarrow> session_ok (set_order_admin s oid)"
  "session_ok s \<Longrightarrow> session_ok (s\<lparr>identity_name := Some n\<rparr>)"
  "get_identity u s = Inr (ident, s1) \<Longrightarrow> session_ok s1"
  by (auto simp: session_ok_def empty_session_def set_oidc_identity_def set_token_identity_def
      set_order_admin_def get_identity_def Let_def split: if_splits option.splits)

lemma get_identity_ok:
  assumes "session_ok s"
  obtains ident s1 where "get_identity u s = Inr (ident, s1)"
    and "is_order_admin s1 ord = is_order_admin s ord"
proof (cases "identity_id s")
  case None
  let ?s1 = "s\<lparr>identity_type := Some ''anon'', identity_id := Some u, identity_name := Some ''''\<rparr>"
  have "get_identity u s = Inr (\<lparr>ident_type = ''anon'', ident_id = u, ident_name = ''''\<rparr>, ?s1)"
    using None by (simp add: get_identity_def)
  moreover have "is_order_admin ?s1 ord = is_order_admin s ord"
    using None by (auto simp: is_order_admin_def truthy_def split: option.splits)
  ultimately show ?thesis using that by simp
next
  case (Some i)
  with assms obtain ty where "identity_type s = Some ty" by (auto simp: session_ok_def)
  with Some have "get_identity u s = Inr (\<lparr>ident_type = ty, ident_id = i,
      ident_name = (case identity_name s of None \<Rightarrow> '''' | Some n \<Rightarrow> n)\<rparr>, s)"
    by (simp add: get_identity_def)
  then show ?thesis using that by simp
qed

lemma add_item_closed:
  assumes ord: "get_order oid (db st) = Inr ord" and ok: "session_ok (sess st)"
    and closed: "utcnow e > deadline ord" and na: "\<not> is_order_admin (sess st) ord"
  shows "(\<exists>d. fst (add_item e st oid form) = Inl (HTTPException 403 d))
         \<and> db (snd (add_item e st oid form)) = db st"
proof -
  from ok obtain ident s1 where gi: "get_identity (session_uuid e) (sess st) = Inr (ident, s1)"
    and adm: "is_order_admin s1 ord = is_order_admin (sess st) ord"
    by (rule get_identity_ok)
  show ?thesis
    by (cases "can_add_item ident ord False")
       (simp_all add: add_item_def ord gi adm na closed Let_def)
qed

lemma edit_item_closed:
  assumes ord: "get_order oid (db st) = Inr ord" and ok: "session_ok (sess st)"
    and closed: "utcnow e > deadline ord" and na: "\<not> is_order_admin (sess st) ord"
  shows "(\<exists>err. fst (edit_item e st oid iid form) = Inl err)
         \<and> db (snd (edit_item e st oid iid form)) = db st
         \<and> (get_item iid oid (db st) = Inr item
              \<longrightarrow> (\<exists>d. fst (edit_item e st oid iid form) = Inl (HTTPException 403 d)))"
proof -
  from ok obtain ident s1 where gi: "get_identity (session_uuid e) (sess st) = Inr (ident, s1)"
    and adm: "is_order_admin s1 ord = is_order_admin (sess st) ord"
    by (rule get_identity_ok)
  show ?thesis
  proof (cases "get_item iid oid (db st)")
    case (Inl err)
    then show ?thesis by (simp add: edit_item_def ord gi Let_def)
  next
    case (Inr it)
    then show ?thesis
      by (cases "can_edit_item (OIDC_ENABLED e) ident it ord False")
         (simp_all add: edit_item_def ord gi adm na closed Let_def)
  qed
qed

lemma delete_item_closed:
  assumes ord: "get_order oid (db st) = Inr ord" and ok: "session_ok (sess st)"
    and closed: "utcnow e > deadline ord" and na: "\<not> is_order_admin (sess st) ord"
  shows "(\<exists>err. fst (delete_item e st oid iid) = Inl err)
         \<and> db (snd (delete_item e st oid iid)) = db st
         \<and> (get_item iid oid (db st) = Inr item
              \<longrightarrow> (\<exists>d. fst (delete_item e st oid iid) = Inl (HTTPException 403 d)))"
proof -
  from ok obtain ident s1 where gi: "get_identity (session_uuid e) (sess st) = Inr (ident, s1)"
    and adm: "is_order_admin s1 ord = is_order_admin (sess st) ord"
    by (rule get_identity_ok)
  show ?thesis
  proof (cases "get_item iid oid (db st)")
    case (Inl err)
    then show ?thesis by (simp add: delete_item_def ord gi Let_def)
  next
    case (Inr it)
    then show ?thesis
      by (cases "can_edit_item (OIDC_ENABLED e) ident it ord False")
         (simp_all add: delete_item_def ord gi adm na closed Let_def)
  qed
qed

lemma run_broadcast_utcnow:
  "run_broadcast (e\<lparr>utcnow := t\<rparr>) st oid dl = run_broadcast e st oid dl"
  by (simp add: run_broadcast_def)

lemma add_item_admin:
  assumes ord: "get_order oid (db st) = Inr ord" and ok: "session_ok (sess st)"
    and a: "is_order_admin (sess st) ord"
  shows "add_item (e\<lparr>utcnow := t\<rparr>) st oid form = add_item e st oid form"
    and "uuid_a e \<notin> set (map i_id (order_items (db st))) \<Longrightarrow> \<exists>r. fst (add_item e st oid form) = Inr r"
proof -
  from ok obtain ident s1 where gi: "get_identity (session_uuid e) (sess st) = Inr (ident, s1)"
    and adm: "is_order_admin s1 ord = is_order_admin (sess st) ord"
    by (rule get_identity_ok)
  show "add_item (e\<lparr>utcnow := t\<rparr>) st oid form = add_item e st oid form"
    by (simp add: add_item_def ord gi adm a Let_def can_add_item_def run_broadcast_utcnow split: sum.splits)
  show "uuid_a e \<notin> set (map i_id (order_items (db st))) \<Longrightarrow> \<exists>r. fst (add_item e st oid form) = Inr r"
    by (simp add: add_item_def ord gi adm a Let_def can_add_item_def add_order_item_def split: sum.splits)
qed

lemma edit_item_admin:
  assumes ord: "get_order oid (db st) = Inr ord" and ok: "session_ok (sess st)"
    and a: "is_order_admin (sess st) ord"
  shows "edit_item (e\<lparr>utcnow := t\<rparr>) st oid iid form = edit_item e st oid iid form"
    and "get_item iid oid (db st) = Inr item \<Longrightarrow> \<exists>r. fst (edit_item e st oid iid form) = Inr r"
proof -
  from ok obtain ident s1 where gi: "get_identity (session_uuid e) (sess st) = Inr (ident, s1)"
    and adm: "is_order_admin s1 ord = is_order_admin (sess st) ord"
    by (rule get_identity_ok)
  show "edit_item (e\<lparr>utcnow := t\<rparr>) st oid iid form = edit_item e st oid iid form"
    by (cases "get_item iid oid (db st)")
       (simp_all add: edit_item_def ord gi adm a Let_def can_edit_item_def run_broadcast_utcnow)
  show "get_item iid oid (db st) = Inr item \<Longrightarrow> \<exists>r. fst (edit_item e st oid iid form) = Inr r"
    by (simp add: edit_item_def ord gi adm a Let_def can_edit_item_def)
qed

lemma delete_item_admin:
  assumes ord: "get_order oid (db st) = Inr ord" and ok: "session_ok (sess st)"
    and a: "is_order_admin (sess st) ord"
  shows "delete_item (e\<lparr>utcnow := t\<rparr>) st oid iid = delete_item e st oid iid"
    and "get_item iid oid (db st) = Inr item \<Longrightarrow> \<exists>r. fst (delete_item e st oid iid) = Inr r"
proof -
  from ok obtain ident s1 where gi: "get_identity (session_uuid e) (sess st) = Inr (ident, s1)"
    and adm: "is_order_admin s1 ord = is_order_admin (sess st) ord"
    by (rule get_identity_ok)
  show "delete_item (e\<lparr>utcnow := t\<rparr>) st oid iid = delete_item e st oid iid"
    by (cases "get_item iid oid (db st)")
       (simp_all add: delete_item_def ord gi adm a Let_def can_edit_item_def run_broadcast_utcnow)
  show "get_item iid oid (db st) = Inr item \<Longrightarrow> \<exists>r. fst (delete_item e st oid iid) = Inr r"
    by (simp add: delete_item_def ord gi adm a Let_def can_edit_item_def)
qed

text \<open>
  C3. On an existing order and a well-formed session, once the clock is past the deadline
  a caller who is not an admin cannot add, edit or delete: each attempt fails and leaves
  the database as it was, and the failure is a 403, on an edit or a delete when the
  item addressed exists in the order (a missing item is reported first). For an admin
  the result of each of the three operations does not depend on the clock, and the
  operation goes through (for an add, when the new id is fresh; for an edit or delete,
  when the item exists).
\<close>

theorem deadline_gate:
  assumes ord: "get_order oid (db st) = Inr ord" and ok: "session_ok (sess st)"
  shows "(utcnow e > deadline ord \<and> \<not> is_order_admin (sess st) ord \<longrightarrow>
            (\<exists>d. fst (add_item e st oid form) = Inl (HTTPException 403 d))
          \<and> db (snd (add_item e st oid form)) = db st
          \<and> (get_item iid oid (db st) = Inr item \<longrightarrow>
               (\<exists>d. fst (edit_item e st oid iid form) = Inl (HTTPException 403 d))
             \<and> (\<exists>d. fst (delete_item e st oid iid) = Inl (HTTPException 403 d)))
          \<and> (\<exists>err. fst (edit_item e st oid iid form) = Inl err)
          \<and> db (snd (edit_item e st oid iid form)) = db st
          \<and> (\<exists>err. fst (delete_item e st oid iid) = Inl err)
          \<and> db (snd (delete_item e st oid iid)) = db st)
       \<and> (is_order_admin (sess st) ord \<longrightarrow>
            add_item (e\<lparr>utcnow := t\<rparr>) st oid form = add_item e st oid form
          \<and> edit_item (e\<lparr>utcnow := t\<rparr>) st oid iid form = edit_item e st oid iid form
          \<and> delete_item (e\<lparr>utcnow := t\<rparr>) st oid iid = delete_item e st oid iid
          \<and> (uuid_a e \<notin> set (map i_id (order_items (db st)))
               \<longrightarrow> (\<exists>r. fst (add_item e st oid form) = Inr r))
          \<and> (get_item iid oid (db st) = Inr item \<longrightarrow>
               (\<exists>r. fst (edit_item e st oid iid form) = Inr r)
             \<and> (\<exists>r. fst (delete_item e st oid iid) = Inr r)))"
proof (intro conjI impI)
  assume c: "utcnow e > deadline ord \<and> \<not> is_order_admin (sess st) ord"
  then have closed: "utcnow e > deadline ord" and na: "\<not> is_order_admin (sess st) ord"
    by (rule conjunct1, rule conjunct2)
  note a = add_item_closed [OF ord ok closed na, of form]
  note ed = edit_item_closed [OF ord ok closed na, of iid form item]
  note de = delete_item_closed [OF ord ok closed na, of iid item]
  from a show "\<exists>d. fst (add_item e st oid form) = Inl (HTTPException 403 d)" by (rule conjunct1)
  from a show "db (snd (add_item e st oid form)) = db st" by (rule conjunct2)
  from ed show "\<exists>err. fst (edit_item e st oid iid form) = Inl err" by (rule conjunct1)
  from ed show "db (snd (edit_item e st oid iid form)) = db st" by blast
  from de show "\<exists>err. fst (delete_item e st oid iid) = Inl err" by (rule conjunct1)
  from de show "db (snd (delete_item e st oid iid)) = db st" by blast
  assume g: "get_item iid oid (db st) = Inr item"
  from ed g show "\<exists>d. fst (edit_item e st oid iid form) = Inl (HTTPException 403 d)" by blast
  from de g show "\<exists>d. fst (delete_item e st oid iid) = Inl (HTTPException 403 d)" by blast
next
  assume adm: "is_order_admin (sess st) ord"
  show "add_item (e\<lparr>utcnow := t\<rparr>) st oid form = add_item e st oid form"
    using ord ok adm by (rule add_item_admin(1))
  show "edit_item (e\<lparr>utcnow := t\<rparr>) st oid iid form = edit_item e st oid iid form"
    using ord ok adm by (rule edit_item_admin(1))
  show "delete_item (e\<lparr>utcnow := t\<rparr>) st oid iid = delete_item e st oid iid"
    using ord ok adm by (rule delete_item_admin(1))
  {
    assume "uuid_a e \<notin> set (map i_id (order_items (db st)))"
    with ord ok adm show "\<exists>r. fst (add_item e st oid form) = Inr r"
      by (rule add_item_admin(2))
  }
  assume g: "get_item iid oid (db st) = Inr item"
  from ord ok adm g show "\<exists>r. fst (edit_item e st oid iid form) = Inr r"
    by (rule edit_item_admin(2))
  from ord ok adm g show "\<exists>r. fst (delete_item e st oid iid) = Inr r"
    by (rule delete_item_admin(2))
qed

theorem deadline_gate_witness:
  "(\<exists>d. fst (add_item demo_env demo_state ''o1'' demo_form) = Inl (HTTPException 403 d))
   \<and> db (snd (add_item demo_env demo_state ''o1'' demo_form)) = db demo_state
   \<and> (\<exists>d. fst (edit_item demo_env demo_state ''o1'' ''i1'' demo_form) = Inl (HTTPException 403 d))
   \<and> (\<exists>d. fst (delete_item demo_env demo_state ''o1'' ''i1'') = Inl (HTTPException 403 d))
   \<and> (\<exists>r. fst (add_item demo_env (demo_state\<lparr>sess := set_order_admin empty_session ''o1''\<rparr>)
              ''o1'' demo_form) = Inr r)
   \<and> (\<exists>r. fst (delete_item demo_env (demo_state\<lparr>sess := set_order_admin empty_session ''o1''\<rparr>)
              ''o1'' ''i1'') = Inr r)"
proof -
  have o: "get_order ''o1'' (db demo_state) = Inr demo_order" by code_simp
  have s: "session_ok (sess demo_state)" by code_simp
  have c: "utcnow demo_env > deadline demo_order \<and> \<not> is_order_admin (sess demo_state) demo_order"
    by code_simp
  have g: "get_item ''i1'' ''o1'' (db demo_state) = Inr demo_item" by code_simp
  note n = deadline_gate [OF o s, where e = demo_env and form = demo_form and iid = "''i1''"
      and item = demo_item, THEN conjunct1, THEN mp, OF c]
  let ?adm = "demo_state\<lparr>sess := set_order_admin empty_session ''o1''\<rparr>"
  have o': "get_order ''o1'' (db ?adm) = Inr demo_order" by code_simp
  have s': "session_ok (sess ?adm)" by code_simp
  have a': "is_order_admin (sess ?adm) demo_order" by code_simp
  have f': "uuid_a demo_env \<notin> set (map i_id (order_items (db ?adm)))" by code_simp
  have g': "get_item ''i1'' ''o1'' (db ?adm) = Inr demo_item" by code_simp
  note m = deadline_gate [OF o' s', where e = demo_env and form = demo_form and iid = "''i1''"
      and item = demo_item, THEN conjunct2, THEN mp, OF a']
  from n g m f' g' show ?thesis by blast
qed

section \<open>Invite names\<close>

lemma get_item_unique:
  assumes "get_item iid oid d = Inr item"
  shows "i_id item = iid" and "order_id item = oid" and "item \<in> set (order_items d)"
proof -
  from assms have f: "filter (\<lambda>it. i_id it = iid \<and> order_id it = oid) (order_items d) = [item]"
    by (auto simp: get_item_def scalar_one_or_none_def split: list.splits sum.splits option.splits)
  then have s: "set (filter (\<lambda>it. i_id it = iid \<and> order_id it = oid) (order_items d)) = {item}"
    by simp
  from s show "i_id item = iid" by auto
  from s show "order_id item = oid" by auto
  from s show "item \<in> set (order_items d)" by auto
qed

lemma join_via_token_sets_name:
  assumes "fst (join_via_token e st oid tok) = Inr r"
  shows "\<exists>t \<in> set (email_tokens (db st)). token t = tok \<and> t_order_id t = oid
           \<and> sess (snd (join_via_token e st oid tok))
               = set_token_identity (sess st) tok (display_name t)"
proof -
  let ?rows = "filter (\<lambda>t. token t = tok \<and> t_order_id t = oid) (email_tokens (db st))"
  from assms obtain raw where u: "unsign_token e tok = Some raw"
    by (cases "unsign_token e tok") (simp_all add: join_via_token_def)
  from assms u obtain t where rows: "?rows = [t]"
    by (cases ?rows rule: list.exhaust; cases "tl ?rows")
       (auto simp: join_via_token_def scalar_one_or_none_def split: list.splits)
  then have "t \<in> set ?rows" by simp
  then have "t \<in> set (email_tokens (db st))" "token t = tok" "t_order_id t = oid" by auto
  moreover have "sess (snd (join_via_token e st oid tok))
      = set_token_identity (sess st) tok (display_name t)"
    by (simp add: join_via_token_def u rows scalar_one_or_none_def)
  ultimately show ?thesis by blast
qed

lemma token_identity:
  assumes "identity_type s = Some ''token''" and "identity_id s = Some i"
    and "identity_name s = Some n"
  shows "get_identity u s = Inr (\<lparr>ident_type = ''token'', ident_id = i, ident_name = n\<rparr>, s)"
  using assms by (simp add: get_identity_def)

lemma add_item_token_name:
  assumes ty: "identity_type (sess st) = Some ''token''" and i: "identity_id (sess st) = Some i"
    and n: "identity_name (sess st) = Some n"
    and r: "fst (add_item e st oid form) = Inr r"
  shows "\<exists>it. order_items (db (snd (add_item e st oid form))) = order_items (db st) @ [it]
           \<and> person_name it = n \<and> person_identifier it = i"
proof -
  note gi = token_identity [OF ty i n, of "session_uuid e"]
  from r obtain ord where ord: "get_order oid (db st) = Inr ord"
    by (cases "get_order oid (db st)") (simp_all add: add_item_def)
  from r show ?thesis
    by (simp add: add_item_def ord gi Let_def add_order_item_def run_broadcast_def
        split: if_splits prod.splits)
qed

lemma list_all_replaced:
  assumes "i_id item' = iid" and "person_name item' = n" and "i_id item = iid"
  shows "list_all (\<lambda>it. i_id it \<noteq> iid \<or> person_name it = n)
           (map (\<lambda>r. if i_id r = i_id item then item' else r) xs)"
  using assms by (induction xs) simp_all

lemma edit_item_token_name:
  assumes ty: "identity_type (sess st) = Some ''token''" and i: "identity_id (sess st) = Some i"
    and n: "identity_name (sess st) = Some n"
    and r: "fst (edit_item e st oid iid form) = Inr r"
  shows "(\<exists>it \<in> set (order_items (db (snd (edit_item e st oid iid form)))).
            i_id it = iid \<and> order_id it = oid \<and> person_name it = n)
         \<and> list_all (\<lambda>it. i_id it \<noteq> iid \<or> person_name it = n)
             (order_items (db (snd (edit_item e st oid iid form))))"
proof -
  note gi = token_identity [OF ty i n, of "session_uuid e"]
  from r obtain ord where ord: "get_order oid (db st) = Inr ord"
    by (cases "get_order oid (db st)") (simp_all add: edit_item_def)
  from r ord obtain item where item: "get_item iid oid (db st) = Inr item"
    by (cases "get_item iid oid (db st)") (simp_all add: edit_item_def gi Let_def)
  define item' where "item' = item\<lparr>person_name := n, product_name := f_product_name form,
      quantity := or_str (f_quantity form) ''1'', product_sku := or_none (f_product_sku form),
      product_url := or_none (f_product_url form), i_note := or_none (f_note form)\<rparr>"
  let ?ident = "\<lparr>ident_type = ''token'', ident_id = i, ident_name = n\<rparr>"
  let ?adm = "is_order_admin (sess st) ord"
  have ce: "can_edit_item (OIDC_ENABLED e) ?ident item ord ?adm"
  proof (rule ccontr)
    assume "\<not> can_edit_item (OIDC_ENABLED e) ?ident item ord ?adm"
    then have "fst (edit_item e st oid iid form)
        = Inl (HTTPException 403 ''Not allowed to edit this item'')"
      by (simp add: edit_item_def ord gi item Let_def)
    with r show False by simp
  qed
  have nc: "\<not> (utcnow e > deadline ord \<and> \<not> ?adm)"
  proof
    assume "utcnow e > deadline ord \<and> \<not> ?adm"
    then have "fst (edit_item e st oid iid form) = Inl (HTTPException 403 ''Order is closed'')"
      using ce by (simp add: edit_item_def ord gi item Let_def)
    with r show False by simp
  qed
  have items: "order_items (db (snd (edit_item e st oid iid form)))
      = map (\<lambda>r. if i_id r = i_id item then item' else r) (order_items (db st))"
  proof (cases "utcnow e > deadline ord")
    case True
    with nc have "?adm" by blast
    with ce show ?thesis
      by (simp add: edit_item_def ord gi item Let_def run_broadcast_def item'_def
          split: prod.splits)
  next
    case False
    with ce show ?thesis
      by (simp add: edit_item_def ord gi item Let_def run_broadcast_def item'_def
          split: prod.splits)
  qed
  note u = get_item_unique [OF item]
  have p: "i_id item' = iid" "order_id item' = oid" "person_name item' = n"
    by (simp_all add: item'_def u)
  have "item' \<in> set (map (\<lambda>r. if i_id r = i_id item then item' else r) (order_items (db st)))"
    using u(3) by (force simp: image_iff)
  with p have one: "\<exists>it \<in> set (order_items (db (snd (edit_item e st oid iid form)))).
            i_id it = iid \<and> order_id it = oid \<and> person_name it = n"
    unfolding items by blast
  have "list_all (\<lambda>it. i_id it \<noteq> iid \<or> person_name it = n)
          (map (\<lambda>r. if i_id r = i_id item then item' else r) (order_items (db st)))"
    using p(1) p(3) u(1) by (rule list_all_replaced)
  with one show ?thesis unfolding items by simp
qed

lemma add_item_token_succeeds:
  assumes ty: "identity_type (sess st) = Some ''token''" and i: "identity_id (sess st) = Some i"
    and n: "identity_name (sess st) = Some n"
    and ord: "get_order oid (db st) = Inr ord"
    and op: "\<not> (utcnow e > deadline ord \<and> \<not> is_order_admin (sess st) ord)"
    and fresh: "uuid_a e \<notin> set (map i_id (order_items (db st)))"
  shows "\<exists>r. fst (add_item e st oid form) = Inr r"
proof -
  note gi = token_identity [OF ty i n, of "session_uuid e"]
  have ca: "can_add_item \<lparr>ident_type = ''token'', ident_id = i, ident_name = n\<rparr> ord
      (is_order_admin (sess st) ord)"
    by (simp add: can_add_item_def)
  show ?thesis
  proof (cases "utcnow e > deadline ord")
    case True
    with op have "is_order_admin (sess st) ord" by blast
    with ca fresh show ?thesis
      by (simp add: add_item_def ord gi Let_def add_order_item_def split: sum.splits)
  next
    case False
    with ca fresh show ?thesis
      by (simp add: add_item_def ord gi Let_def add_order_item_def split: sum.splits)
  qed
qed

lemma edit_item_token_succeeds:
  assumes ty: "identity_type (sess st) = Some ''token''" and i: "identity_id (sess st) = Some i"
    and n: "identity_name (sess st) = Some n"
    and ord: "get_order oid (db st) = Inr ord"
    and op: "\<not> (utcnow e > deadline ord \<and> \<not> is_order_admin (sess st) ord)"
    and item: "get_item iid oid (db st) = Inr item" and own: "person_identifier item = i"
  shows "\<exists>r. fst (edit_item e st oid iid form) = Inr r"
proof -
  note gi = token_identity [OF ty i n, of "session_uuid e"]
  have ce: "can_edit_item (OIDC_ENABLED e) \<lparr>ident_type = ''token'', ident_id = i, ident_name = n\<rparr>
      item ord (is_order_admin (sess st) ord)"
    by (simp add: can_edit_item_def own)
  show ?thesis
  proof (cases "utcnow e > deadline ord")
    case True
    with op have "is_order_admin (sess st) ord" by blast
    with ce show ?thesis
      by (simp add: edit_item_def ord gi item Let_def)
  next
    case False
    with ce show ?thesis
      by (simp add: edit_item_def ord gi item Let_def)
  qed
qed

text \<open>
  C10. Joining through an invite link stores the token's display name in the session; in
  a session of kind token, an add that goes through appends an item under the session's
  name and id, and an edit that goes through leaves the edited item under the session's
  name, whatever name the form submits. Both do go through: on an existing order that
  the deadline does not close to the caller, the add when the new id is fresh, the edit
  when the item exists in the order and is the caller's own.
\<close>

theorem token_name_fixed:
  "(fst (join_via_token e0 st0 oid0 tok) = Inr r0 \<longrightarrow>
      (\<exists>t \<in> set (email_tokens (db st0)). token t = tok \<and> t_order_id t = oid0
         \<and> sess (snd (join_via_token e0 st0 oid0 tok))
             = set_token_identity (sess st0) tok (display_name t)))
   \<and> (identity_type (sess st) = Some ''token'' \<and> identity_id (sess st) = Some i
        \<and> identity_name (sess st) = Some n \<longrightarrow>
      (fst (add_item e st oid form) = Inr r \<longrightarrow>
         (\<exists>it. order_items (db (snd (add_item e st oid form))) = order_items (db st) @ [it]
            \<and> person_name it = n \<and> person_identifier it = i))
      \<and> (fst (edit_item e st oid iid form) = Inr r' \<longrightarrow>
         (\<exists>it \<in> set (order_items (db (snd (edit_item e st oid iid form)))).
            i_id it = iid \<and> order_id it = oid \<and> person_name it = n)
         \<and> list_all (\<lambda>it. i_id it \<noteq> iid \<or> person_name it = n)
             (order_items (db (snd (edit_item e st oid iid form)))))
      \<and> (get_order oid (db st) = Inr ord
           \<and> \<not> (utcnow e > deadline ord \<and> \<not> is_order_admin (sess st) ord) \<longrightarrow>
          (uuid_a e \<notin> set (map i_id (order_items (db st)))
             \<longrightarrow> (\<exists>r. fst (add_item e st oid form) = Inr r))
          \<and> (get_item iid oid (db st) = Inr item \<and> person_identifier item = i
             \<longrightarrow> (\<exists>r. fst (edit_item e st oid iid form) = Inr r))))"
proof (intro conjI impI)
  assume "fst (join_via_token e0 st0 oid0 tok) = Inr r0"
  then show "\<exists>t \<in> set (email_tokens (db st0)). token t = tok \<and> t_order_id t = oid0
         \<and> sess (snd (join_via_token e0 st0 oid0 tok))
             = set_token_identity (sess st0) tok (display_name t)"
    by (rule join_via_token_sets_name)
next
  assume s: "identity_type (sess st) = Some ''token'' \<and> identity_id (sess st) = Some i
        \<and> identity_name (sess st) = Some n"
    and r: "fst (add_item e st oid form) = Inr r"
  from s have "identity_type (sess st) = Some ''token''" "identity_id (sess st) = Some i"
    "identity_name (sess st) = Some n" by blast+
  then show "\<exists>it. order_items (db (snd (add_item e st oid form))) = order_items (db st) @ [it]
            \<and> person_name it = n \<and> person_identifier it = i"
    using r by (rule add_item_token_name)
next
  assume s: "identity_type (sess st) = Some ''token'' \<and> identity_id (sess st) = Some i
        \<and> identity_name (sess st) = Some n"
    and r: "fst (edit_item e st oid iid form) = Inr r'"
  from s have t: "identity_type (sess st) = Some ''token''" "identity_id (sess st) = Some i"
    "identity_name (sess st) = Some n" by blast+
  note ed = edit_item_token_name [OF t r]
  from ed show "\<exists>it \<in> set (order_items (db (snd (edit_item e st oid iid form)))).
            i_id it = iid \<and> order_id it = oid \<and> person_name it = n" by (rule conjunct1)
  from ed show "list_all (\<lambda>it. i_id it \<noteq> iid \<or> person_name it = n)
             (order_items (db (snd (edit_item e st oid iid form))))" by (rule conjunct2)
next
  assume s: "identity_type (sess st) = Some ''token'' \<and> identity_id (sess st) = Some i
        \<and> identity_name (sess st) = Some n"
    and o: "get_order oid (db st) = Inr ord
           \<and> \<not> (utcnow e > deadline ord \<and> \<not> is_order_admin (sess st) ord)"
    and fresh: "uuid_a e \<notin> set (map i_id (order_items (db st)))"
  from s have t: "identity_type (sess st) = Some ''token''" "identity_id (sess st) = Some i"
    "identity_name (sess st) = Some n" by blast+
  from o have ord: "get_order oid (db st) = Inr ord"
    and op: "\<not> (utcnow e > deadline ord \<and> \<not> is_order_admin (sess st) ord)" by blast+
  from t ord op fresh show "\<exists>r. fst (add_item e st oid form) = Inr r"
    by (rule add_item_token_succeeds)
next
  assume s: "identity_type (sess st) = Some ''token'' \<and> identity_id (sess st) = Some i
        \<and> identity_name (sess st) = Some n"
    and o: "get_order oid (db st) = Inr ord
           \<and> \<not> (utcnow e > deadline ord \<and> \<not> is_order_admin (sess st) ord)"
    and g: "get_item iid oid (db st) = Inr item \<and> person_identifier item = i"
  from s have t: "identity_type (sess st) = Some ''token''" "identity_id (sess st) = Some i"
    "identity_name (sess st) = Some n" by blast+
  from o have ord: "get_order oid (db st) = Inr ord"
    and op: "\<not> (utcnow e > deadline ord \<and> \<not> is_order_admin (sess st) ord)" by blast+
  from g have item: "get_item iid oid (db st) = Inr item" and own: "person_identifier item = i"
    by blast+
  from t ord op item own show "\<exists>r. fst (edit_item e st oid iid form) = Inr r"
    by (rule edit_item_token_succeeds)
qed

theorem token_name_fixed_witness:
  "sess (snd (join_via_token demo_env demo_state ''o1'' ''tk''))
     = set_token_identity empty_session ''tk'' ''Carol''
   \<and> f_person_name demo_form = ''Mallory''
   \<and> (\<exists>it. order_items (db (snd (add_item (demo_env\<lparr>utcnow := 50\<rparr>)
              (snd (join_via_token demo_env demo_state ''o1'' ''tk'')) ''o1'' demo_form)))
            = order_items (db (snd (join_via_token demo_env demo_state ''o1'' ''tk''))) @ [it]
          \<and> person_name it = ''Carol'' \<and> person_identifier it = ''tk'')
   \<and> fst (edit_item (demo_env\<lparr>utcnow := 50\<rparr>)
        (snd (add_item (demo_env\<lparr>utcnow := 50\<rparr>)
              (snd (join_via_token demo_env demo_state ''o1'' ''tk'')) ''o1'' demo_form))
        ''o1'' ''n1'' (demo_form\<lparr>f_product_name := ''cola''\<rparr>))
      = Inr (ItemsResponse [demo_item, \<lparr>i_id = ''n1'', order_id = ''o1'',
          person_identifier = ''tk'', person_name = ''Carol'', product_name = ''cola'',
          product_sku = None, product_url = None, quantity = ''2'', i_note = None\<rparr>])
   \<and> (\<exists>it \<in> set (order_items (db (snd (edit_item (demo_env\<lparr>utcnow := 50\<rparr>)
        (snd (add_item (demo_env\<lparr>utcnow := 50\<rparr>)
              (snd (join_via_token demo_env demo_state ''o1'' ''tk'')) ''o1'' demo_form))
        ''o1'' ''n1'' (demo_form\<lparr>f_product_name := ''cola''\<rparr>))))).
          i_id it = ''n1'' \<and> order_id it = ''o1'' \<and> person_name it = ''Carol'')
   \<and> order_items (db (snd (edit_item (demo_env\<lparr>utcnow := 50\<rparr>)
        ((snd (join_via_token demo_env demo_state ''o1'' ''tk''))
           \<lparr>db := (db demo_state)\<lparr>order_items := [demo_item\<lparr>person_identifier := ''tk''\<rparr>]\<rparr>\<rparr>)
        ''o1'' ''i1'' demo_form)))
      = [\<lparr>i_id = ''i1'', order_id = ''o1'', person_identifier = ''tk'', person_name = ''Carol'',
          product_name = ''mate'', product_sku = None, product_url = None, quantity = ''2'',
          i_note = None\<rparr>]"
proof -
  let ?e = "demo_env\<lparr>utcnow := 50\<rparr>"
  let ?st = "snd (join_via_token demo_env demo_state ''o1'' ''tk'')"
  let ?st1 = "snd (add_item ?e ?st ''o1'' demo_form)"
  let ?form = "demo_form\<lparr>f_product_name := ''cola''\<rparr>"
  have j: "sess ?st = set_token_identity empty_session ''tk'' ''Carol''" by code_simp
  have f: "f_person_name demo_form = ''Mallory''" by code_simp
  have s: "identity_type (sess ?st) = Some ''token'' \<and> identity_id (sess ?st) = Some ''tk''
        \<and> identity_name (sess ?st) = Some ''Carol''" by code_simp
  have a: "fst (add_item ?e ?st ''o1'' demo_form)
      = Inr (ItemsResponse [demo_item, \<lparr>i_id = ''n1'', order_id = ''o1'',
          person_identifier = ''tk'', person_name = ''Carol'', product_name = ''mate'',
          product_sku = None, product_url = None, quantity = ''2'', i_note = None\<rparr>])"
    by code_simp
  note t = token_name_fixed [where st = ?st and i = "''tk''" and n = "''Carol''"
      and e = ?e and oid = "''o1''" and form = demo_form,
      THEN conjunct2, THEN mp, OF s, THEN conjunct1, THEN mp, OF a]
  have s1: "identity_type (sess ?st1) = Some ''token'' \<and> identity_id (sess ?st1) = Some ''tk''
        \<and> identity_name (sess ?st1) = Some ''Carol''" by code_simp
  have ed: "fst (edit_item ?e ?st1 ''o1'' ''n1'' ?form)
      = Inr (ItemsResponse [demo_item, \<lparr>i_id = ''n1'', order_id = ''o1'',
          person_identifier = ''tk'', person_name = ''Carol'', product_name = ''cola'',
          product_sku = None, product_url = None, quantity = ''2'', i_note = None\<rparr>])"
    by code_simp
  note u = token_name_fixed [where st = ?st1 and i = "''tk''" and n = "''Carol''"
      and e = ?e and oid = "''o1''" and iid = "''n1''" and form = ?form,
      THEN conjunct2, THEN mp, OF s1, THEN conjunct2, THEN conjunct1, THEN mp, OF ed,
      THEN conjunct1]
  have own: "order_items (db (snd (edit_item ?e
        (?st\<lparr>db := (db demo_state)\<lparr>order_items := [demo_item\<lparr>person_identifier := ''tk''\<rparr>]\<rparr>\<rparr>)
        ''o1'' ''i1'' demo_form)))
      = [\<lparr>i_id = ''i1'', order_id = ''o1'', person_identifier = ''tk'', person_name = ''Carol'',
          product_name = ''mate'', product_sku = None, product_url = None, quantity = ''2'',
          i_note = None\<rparr>]"
    by code_simp
  from j f t ed u own show ?thesis by (intro conjI)
qed

section \<open>Product export\<close>

lemma add_quantity_after_fallback:
  "py_int q = Some n \<Longrightarrow> add_quantity (TStr s) q = Inl TypeError"
  by (simp add: add_quantity_def)

text \<open>
  C8. The product-grouped export raises \<^verbatim>\<open>TypeError\<close> when, in one group, an item
  whose quantity parses as an integer follows one whose quantity does not: the total is
  a string by then, and adding an integer to it is not caught.
\<close>

theorem export_csv_numeric_after_text_raises:
  assumes "item_key a = item_key b" and "py_int (quantity a) = None"
    and "py_int (quantity b) = Some n"
  shows "export_csv ord [a, b] ''product'' = Inl TypeError"
  using assms by (simp add: export_csv_def add_quantity_def Let_def)

theorem export_csv_numeric_after_text_raises_witness:
  "export_csv demo_order
     [demo_item\<lparr>quantity := ''a few''\<rparr>, demo_item\<lparr>i_id := ''i2'', quantity := ''2''\<rparr>]
     ''product'' = Inl TypeError"
proof -
  have "item_key (demo_item\<lparr>quantity := ''a few''\<rparr>)
      = item_key (demo_item\<lparr>i_id := ''i2'', quantity := ''2''\<rparr>)"
    by code_simp
  moreover have "py_int (quantity (demo_item\<lparr>quantity := ''a few''\<rparr>)) = None"
    by code_simp
  moreover have "py_int (quantity (demo_item\<lparr>i_id := ''i2'', quantity := ''2''\<rparr>)) = Some 2"
    by code_simp
  ultimately show ?thesis by (rule export_csv_numeric_after_text_raises)
qed

end
